theory Spec2Isabelle
  imports Complex_Main
begin

section \<open>Data model of \<open>src/js/challenge.js\<close>\<close>

text \<open>
  A JavaScript number is an IEEE 754 double. It is carried as the rational it denotes
  (\<^typ>\<open>rat\<close>), and every \<open>+\<close>, \<open>*\<close> and \<open>/\<close> of the code is the exact operation followed by
  rounding to the nearest double, ties to even (\<open>fl\<close> below, with subnormals). The model
  stays within the finite doubles: overflow to \<open>Infinity\<close> (a magnitude of \<open>2^1024\<close> or
  more) is not part of it, and \<open>-0\<close> is \<open>0\<close>. An object property that may be missing is a
  \<^typ>\<open>rat option\<close> (\<open>None\<close> is \<open>undefined\<close>). A computed number that can be \<open>NaN\<close> is an
  option as well, with \<open>None\<close> for \<open>NaN\<close>; the only way the modelled code produces \<open>NaN\<close> is
  arithmetic on \<open>undefined\<close>.
\<close>

text \<open>The number of binary digits of a positive integer, and the powers of two.\<close>

function bitLength :: "int \<Rightarrow> int" where
  "bitLength n = (if n \<le> 0 then 0 else 1 + bitLength (n div 2))"
  by pat_completeness auto
termination
  by (relation "measure nat") auto

declare bitLength.simps [simp del]

function pow2nat :: "int \<Rightarrow> rat" where
  "pow2nat n = (if n \<le> 0 then 1 else 2 * pow2nat (n - 1))"
  by pat_completeness auto
termination
  by (relation "measure nat") auto

declare pow2nat.simps [simp del]

definition pow2 :: "int \<Rightarrow> rat" where
  "pow2 e = (if 0 \<le> e then pow2nat e else 1 / pow2nat (- e))"

text \<open>The binary exponent of a positive rational: \<open>pow2 (ilog2 y) \<le> y < pow2 (ilog2 y + 1)\<close>.\<close>

definition ilog2 :: "rat \<Rightarrow> int" where
  "ilog2 y =
     (let d = bitLength (fst (quotient_of y)) - bitLength (snd (quotient_of y))
      in if pow2 d \<le> y then d else d - 1)"

text \<open>The nearest integer of a non-negative rational, a half going to the even neighbour.\<close>

definition roundHalfEven :: "rat \<Rightarrow> int" where
  "roundHalfEven z =
     (let f = \<lfloor>z\<rfloor>; r = z - of_int f
      in if r < 1 / 2 then f
         else if 1 / 2 < r then f + 1
         else if even f then f else f + 1)"

text \<open>
  Rounding to double precision: 53 significant bits, the least exponent of a unit in the
  last place being \<open>-1074\<close>.
\<close>

definition fl :: "rat \<Rightarrow> rat" where
  "fl x =
     (if x = 0 then 0
      else (let e = max (ilog2 \<bar>x\<bar> - 52) (- 1074)
            in sgn x * of_int (roundHalfEven (\<bar>x\<bar> / pow2 e)) * pow2 e))"

text \<open>The operators \<open>+\<close>, \<open>*\<close> and \<open>/\<close> on numbers.\<close>

definition js_add :: "rat \<Rightarrow> rat \<Rightarrow> rat" where
  "js_add a b = fl (a + b)"

definition js_mul :: "rat \<Rightarrow> rat \<Rightarrow> rat" where
  "js_mul a b = fl (a * b)"

definition js_div :: "rat \<Rightarrow> rat \<Rightarrow> rat" where
  "js_div a b = fl (a / b)"

text \<open>Truthiness of an optional number: \<open>undefined\<close> and \<open>0\<close> are falsy.\<close>

definition truthy :: "rat option \<Rightarrow> bool" where
  "truthy v = (case v of None \<Rightarrow> False | Some x \<Rightarrow> x \<noteq> 0)"

text \<open>\<open>v || 0\<close> for an optional number.\<close>

definition orZero :: "rat option \<Rightarrow> rat" where
  "orZero v = (case v of None \<Rightarrow> 0 | Some x \<Rightarrow> x)"

text \<open>
  \<open>Math.round\<close>: the nearest integer, a half rounded towards plus infinity; it is exact
  on a double.
\<close>

definition Math_round :: "rat \<Rightarrow> int" where
  "Math_round x = \<lfloor>x + 1 / 2\<rfloor>"

datatype category = Running | Yoga | Strength | Hiit | Cycling | Swimming

datatype difficulty = Beginner | Intermediate | Advanced

text \<open>
  \<open>challenge.goals\<close>: the five goal kinds that the module reads, and the remaining
  keys of the object (\<open>avgPace\<close>, \<open>totalSets\<close>, ...) as a list of pairs.
\<close>

record goals =
  g_totalDistance :: "rat option"
  g_totalWorkouts :: "rat option"
  g_caloriesBurned :: "rat option"
  g_totalMinutes :: "rat option"
  g_totalSessions :: "rat option"
  g_other :: "(string \<times> rat) list"

record challenge =
  c_id :: string
  title :: string
  category :: category
  difficulty :: difficulty
  duration :: rat
  participants :: rat
  goals :: goals
  featured :: bool

text \<open>
  \<open>userChallenge.progress\<close>. The object literal of \<open>joinChallenge\<close> always sets the first
  four keys; the others are only set by \<open>initializeChallengeProgress\<close> and
  \<open>updateChallengeProgress\<close>.
\<close>

record progress =
  currentDay :: rat
  totalDays :: rat
  completedWorkouts :: rat
  totalWorkouts :: rat
  currentDistance :: "rat option"
  totalDistance :: "rat option"
  currentCalories :: "rat option"
  totalCalories :: "rat option"
  currentMinutes :: "rat option"
  totalMinutes :: "rat option"
  currentSessions :: "rat option"
  totalSessions :: "rat option"

datatype status = Active | Completed | Abandoned

text \<open>
  Timestamps: \<open>ISODate t\<close> is \<open>new Date().toISOString()\<close> taken at clock value \<open>t\<close>
  (milliseconds), \<open>ISODatePlusDays t d\<close> is the result of \<open>calculateEndDate d\<close> at \<open>t\<close>.
\<close>

datatype isodate = ISODate nat | ISODatePlusDays nat rat

record userChallenge =
  uc_id :: string
  userId :: string
  challengeId :: string
  startDate :: isodate
  endDate :: isodate
  status :: status
  progress :: progress
  joinedAt :: isodate
  completedAt :: "isodate option"

section \<open>Progress aggregation\<close>

text \<open>
  One \<open>if (progress.totalK) { totalPercentage += (progress.currentK / progress.totalK) * 100;
  criteriaCount++; }\<close> block of \<open>calculateChallengeProgress\<close>, on the pair of accumulators
  \<open>(totalPercentage, criteriaCount)\<close>.
\<close>

definition addCriterion ::
  "rat option \<Rightarrow> rat option \<Rightarrow> rat option \<times> nat \<Rightarrow> rat option \<times> nat" where
  "addCriterion tot cur acc =
     (if truthy tot
      then (case (fst acc, cur) of
              (Some p, Some c) \<Rightarrow> Some (js_add p (js_mul (js_div c (orZero tot)) 100))
            | _ \<Rightarrow> None,
            snd acc + 1)
      else acc)"

definition calculateChallengeProgress :: "userChallenge \<Rightarrow> int option" where
  "calculateChallengeProgress uc =
     (let p = progress uc;
          acc0 = (Some 0, 0);
          acc1 = addCriterion (Some (totalWorkouts p)) (Some (completedWorkouts p)) acc0;
          acc2 = addCriterion (totalDistance p) (currentDistance p) acc1;
          acc3 = addCriterion (totalCalories p) (currentCalories p) acc2;
          acc4 = addCriterion (totalMinutes p) (currentMinutes p) acc3;
          acc5 = addCriterion (totalSessions p) (currentSessions p) acc4
      in if snd acc5 > 0
         then (case fst acc5 of
                 None \<Rightarrow> None
               | Some t \<Rightarrow> Some (min (Math_round (js_div t (of_nat (snd acc5)))) 100))
         else Some 0)"

text \<open>The clamp of \<open>generateProgressBar\<close>: \<open>Math.min(Math.max(percentage, 0), 100)\<close>.\<close>

definition safePercentage :: "int \<Rightarrow> int" where
  "safePercentage percentage = min (max percentage 0) 100"

section \<open>Stores and session\<close>

text \<open>
  The user object of the session (\<open>getCurrentUser()\<close> of \<open>auth.js\<close>), the catalogue stored under
  \<open>STORAGE_KEY\<close> and the object stored under \<open>USER_CHALLENGES_KEY\<close>, which maps a user id to
  the array of that user's records. \<open>session = None\<close> is \<open>getCurrentUser() === null\<close>, and
  \<open>isLoggedIn()\<close> is \<open>getCurrentUser() !== null\<close>. An operation reads the clock once: its
  argument \<open>now\<close>.
\<close>

record user =
  u_id :: string
  u_name :: string
  u_email :: string

record state =
  session :: "user option"
  challenges :: "challenge list"
  allUserChallenges :: "string \<rightharpoonup> userChallenge list"

definition MAX_ACTIVE_CHALLENGES :: nat where
  "MAX_ACTIVE_CHALLENGES = 5"

text \<open>
  Failure results \<open>{ success: false, message }\<close>, by message:
  \<open>NotAuthenticated\<close> "You must be logged in ...", \<open>ChallengeNotFound\<close> "Challenge not found",
  \<open>AlreadyJoined\<close> "You have already joined this challenge",
  \<open>ActiveLimitExceeded\<close> "You can only have 5 active challenges at a time",
  \<open>NotJoined\<close> "You have not joined this challenge",
  \<open>NoDataToSync\<close> "No data available to sync. Please connect your fitness apps.".
  The \<open>catch\<close> blocks have no counterpart: reads and writes of the storage are taken to
  succeed, and with the fields of the records above always present no other statement of the
  modelled functions throws.
\<close>

datatype error =
  NotAuthenticated | ChallengeNotFound | AlreadyJoined | ActiveLimitExceeded
  | NotJoined | NoDataToSync

text \<open>\<open>Array.prototype.findIndex\<close>, with \<open>None\<close> for \<open>-1\<close>.\<close>

fun findIndex :: "('a \<Rightarrow> bool) \<Rightarrow> 'a list \<Rightarrow> nat option" where
  "findIndex P [] = None"
| "findIndex P (x # xs) =
     (if P x then Some 0 else map_option Suc (findIndex P xs))"

definition getChallengeById :: "state \<Rightarrow> string \<Rightarrow> challenge option" where
  "getChallengeById s challengeId' = find (\<lambda>c. c_id c = challengeId') (challenges s)"

text \<open>
  \<open>getUserChallenges(userId = null)\<close>: \<open>userId || getCurrentUser()?.id\<close>, the empty list when
  that is falsy (no user, or the empty string), else \<open>allUserChallenges[user] || []\<close>.
\<close>

definition getUserChallenges :: "state \<Rightarrow> string option \<Rightarrow> userChallenge list" where
  "getUserChallenges s userId' =
     (let usr = (case userId' of
                   Some i \<Rightarrow> if i \<noteq> [] then Some i else map_option u_id (session s)
                 | None \<Rightarrow> map_option u_id (session s))
      in case usr of
           None \<Rightarrow> []
         | Some i \<Rightarrow> if i = [] then []
                    else (case allUserChallenges s i of None \<Rightarrow> [] | Some ucs \<Rightarrow> ucs))"

definition hasJoinedChallenge :: "state \<Rightarrow> string \<Rightarrow> bool" where
  "hasJoinedChallenge s challengeId' =
     list_ex (\<lambda>uc. challengeId uc = challengeId') (getUserChallenges s None)"

definition initializeChallengeProgress :: "challenge \<Rightarrow> progress \<Rightarrow> progress" where
  "initializeChallengeProgress c p0 =
     (let g = goals c;
          p1 = (if truthy (g_totalDistance g)
                then p0\<lparr>currentDistance := Some 0, totalDistance := g_totalDistance g\<rparr>
                else p0);
          p2 = (if truthy (g_caloriesBurned g)
                then p1\<lparr>currentCalories := Some 0, totalCalories := g_caloriesBurned g\<rparr>
                else p1);
          p3 = (if truthy (g_totalMinutes g)
                then p2\<lparr>currentMinutes := Some 0, totalMinutes := g_totalMinutes g\<rparr>
                else p2);
          p4 = (if truthy (g_totalSessions g)
                then p3\<lparr>currentSessions := Some 0, totalSessions := g_totalSessions g\<rparr>
                else p3)
      in p4)"

text \<open>Decimal digits of \<open>Date.now()\<close> inside the template string of the record id.\<close>

fun show_nat :: "nat \<Rightarrow> string" where
  "show_nat n =
     (if n < 10 then [char_of (48 + n)]
      else show_nat (n div 10) @ [char_of (48 + n mod 10)])"

declare show_nat.simps [simp del]

text \<open>
  \<open>updateChallengeParticipants\<close>: the first catalogue entry with the id gets
  \<open>participants += increment\<close>; a catalogue without the id is left as it is. The counter
  is a count of users, an integer far below \<open>2^53\<close>, and the increment is 1 or -1: there
  the addition of doubles is exact, and it is written as the exact addition.
\<close>

definition updateChallengeParticipants :: "string \<Rightarrow> rat \<Rightarrow> state \<Rightarrow> state" where
  "updateChallengeParticipants challengeId' increment s =
     (case findIndex (\<lambda>c. c_id c = challengeId') (challenges s) of
        None \<Rightarrow> s
      | Some i \<Rightarrow>
          s\<lparr>challenges :=
              (challenges s)[i := (challenges s ! i)
                 \<lparr>participants := participants (challenges s ! i) + increment\<rparr>]\<rparr>)"

text \<open>The object literal \<open>userChallenge\<close> of \<open>joinChallenge\<close>.\<close>

definition newUserChallenge :: "nat \<Rightarrow> user \<Rightarrow> challenge \<Rightarrow> string \<Rightarrow> userChallenge" where
  "newUserChallenge now usr c challengeId' =
     \<lparr>uc_id = u_id usr @ ''_'' @ challengeId' @ ''_'' @ show_nat now,
      userId = u_id usr,
      challengeId = challengeId',
      startDate = ISODate now,
      endDate = ISODatePlusDays now (duration c),
      status = Active,
      progress = initializeChallengeProgress c
        \<lparr>currentDay = 1,
         totalDays = duration c,
         completedWorkouts = 0,
         totalWorkouts = (if truthy (g_totalWorkouts (goals c))
                          then orZero (g_totalWorkouts (goals c)) else duration c),
         currentDistance = None, totalDistance = None,
         currentCalories = None, totalCalories = None,
         currentMinutes = None, totalMinutes = None,
         currentSessions = None, totalSessions = None\<rparr>,
      joinedAt = ISODate now,
      completedAt = None\<rparr>"

definition joinChallenge :: "nat \<Rightarrow> string \<Rightarrow> state \<Rightarrow> (error + userChallenge) \<times> state" where
  "joinChallenge now challengeId' s =
     (case session s of
        None \<Rightarrow> (Inl NotAuthenticated, s)
      | Some usr \<Rightarrow>
          (case getChallengeById s challengeId' of
             None \<Rightarrow> (Inl ChallengeNotFound, s)
           | Some c \<Rightarrow>
               if hasJoinedChallenge s challengeId' then (Inl AlreadyJoined, s)
               else if length (filter (\<lambda>uc. status uc = Active) (getUserChallenges s None))
                         \<ge> MAX_ACTIVE_CHALLENGES
               then (Inl ActiveLimitExceeded, s)
               else
                 (let uc = newUserChallenge now usr c challengeId';
                      old = (case allUserChallenges s (u_id usr) of
                               None \<Rightarrow> [] | Some ucs \<Rightarrow> ucs);
                      s1 = s\<lparr>allUserChallenges :=
                              (allUserChallenges s)(u_id usr \<mapsto> old @ [uc])\<rparr>
                  in (Inr uc, updateChallengeParticipants challengeId' 1 s1))))"

definition leaveChallenge :: "nat \<Rightarrow> string \<Rightarrow> state \<Rightarrow> (error + unit) \<times> state" where
  "leaveChallenge now challengeId' s =
     (case session s of
        None \<Rightarrow> (Inl NotAuthenticated, s)
      | Some usr \<Rightarrow>
          (case allUserChallenges s (u_id usr) of
             None \<Rightarrow> (Inl ChallengeNotFound, s)
           | Some ucs \<Rightarrow>
               (case findIndex (\<lambda>uc. challengeId uc = challengeId') ucs of
                  None \<Rightarrow> (Inl NotJoined, s)
                | Some i \<Rightarrow>
                    (let uc = (ucs ! i)\<lparr>status := Abandoned, endDate := ISODate now\<rparr>;
                         s1 = s\<lparr>allUserChallenges :=
                                 (allUserChallenges s)(u_id usr \<mapsto> ucs[i := uc])\<rparr>
                     in (Inr (), updateChallengeParticipants challengeId' (- 1) s1)))))"

section \<open>Progress mutation\<close>

text \<open>
  The argument \<open>progressData\<close> of \<open>updateChallengeProgress\<close>; a missing \<open>workoutCompleted\<close>
  is \<open>False\<close>.
\<close>

record progressData =
  pd_distance :: "rat option"
  pd_calories :: "rat option"
  pd_minutes :: "rat option"
  pd_workoutCompleted :: bool

text \<open>The four guarded assignments to \<open>userChallenge.progress\<close>.\<close>

definition applyProgressData :: "progressData \<Rightarrow> progress \<Rightarrow> progress" where
  "applyProgressData pd p0 =
     (let p1 = (if truthy (pd_distance pd)
                then p0\<lparr>currentDistance :=
                          Some (js_add (orZero (currentDistance p0)) (orZero (pd_distance pd)))\<rparr>
                else p0);
          p2 = (if truthy (pd_calories pd)
                then p1\<lparr>currentCalories :=
                          Some (js_add (orZero (currentCalories p1)) (orZero (pd_calories pd)))\<rparr>
                else p1);
          p3 = (if truthy (pd_minutes pd)
                then p2\<lparr>currentMinutes :=
                          Some (js_add (orZero (currentMinutes p2)) (orZero (pd_minutes pd)))\<rparr>
                else p2);
          p4 = (if pd_workoutCompleted pd
                then p3\<lparr>completedWorkouts := js_add (completedWorkouts p3) 1,
                        currentDay := min (js_add (currentDay p3) 1) (totalDays p3)\<rparr>
                else p3)
      in p4)"

text \<open>The completion check that follows them; \<open>NaN >= 100\<close> is false.\<close>

definition checkCompleted :: "nat \<Rightarrow> userChallenge \<Rightarrow> userChallenge" where
  "checkCompleted now uc =
     (case calculateChallengeProgress uc of
        Some n \<Rightarrow> if n \<ge> 100
                  then uc\<lparr>status := Completed, completedAt := Some (ISODate now)\<rparr>
                  else uc
      | None \<Rightarrow> uc)"

definition updateChallengeProgress ::
  "nat \<Rightarrow> string \<Rightarrow> progressData \<Rightarrow> state \<Rightarrow> (error + progress \<times> int option) \<times> state" where
  "updateChallengeProgress now challengeId' pd s =
     (case session s of
        None \<Rightarrow> (Inl NotAuthenticated, s)
      | Some usr \<Rightarrow>
          (case allUserChallenges s (u_id usr) of
             None \<Rightarrow> (Inl ChallengeNotFound, s)
           | Some ucs \<Rightarrow>
               (case findIndex (\<lambda>uc. challengeId uc = challengeId') ucs of
                  None \<Rightarrow> (Inl NotJoined, s)
                | Some i \<Rightarrow>
                    (let uc1 = (ucs ! i)\<lparr>progress := applyProgressData pd (progress (ucs ! i))\<rparr>;
                         completionPercentage = calculateChallengeProgress uc1;
                         uc2 = checkCompleted now uc1
                     in (Inr (progress uc2, completionPercentage),
                         s\<lparr>allUserChallenges :=
                             (allUserChallenges s)(u_id usr \<mapsto> ucs[i := uc2])\<rparr>)))))"

section \<open>Sync with external sources\<close>

text \<open>
  The two fetches are calls to other services: their outcomes are arguments of the model.
  \<open>None\<close> is a fetch that threw (no access token, HTTP error), which the inner \<open>catch\<close>
  blocks skip. A Strava activity has a \<open>distance\<close> in metres and maybe \<open>calories\<close>; the
  Fitbit answer may lack \<open>summary\<close>, and each key of it; an entry of \<open>summary.distances\<close>
  is represented by its \<open>distance\<close> property.
\<close>

record stravaActivity =
  act_distance :: rat
  act_calories :: "rat option"

record fitbitSummary =
  fs_steps :: "rat option"
  fs_caloriesOut :: "rat option"
  fs_distances :: "rat option list"

record fitbitData =
  fd_summary :: "fitbitSummary option"

record stravaSync =
  st_distance :: rat
  st_calories :: rat
  st_activities :: nat

record fitbitSync =
  fb_steps :: rat
  fb_calories :: rat
  fb_distance :: rat

record syncedData =
  sd_strava :: "stravaSync option"
  sd_fitbit :: "fitbitSync option"

text \<open>Lines 578 to 611: filling \<open>syncedData\<close> from the two sources.\<close>

definition gatherSyncedData ::
  "challenge \<Rightarrow> stravaActivity list option \<Rightarrow> fitbitData option \<Rightarrow> syncedData" where
  "gatherSyncedData c stravaResult fitbitResult =
     \<lparr>sd_strava =
        (if category c = Running \<or> category c = Cycling
         then (case stravaResult of
                 None \<Rightarrow> None
               | Some activities \<Rightarrow>
                   Some \<lparr>st_distance =
                           foldl (\<lambda>sum act. js_add sum (js_div (act_distance act) 1000)) 0
                             activities,
                         st_calories =
                           foldl (\<lambda>sum act. js_add sum (orZero (act_calories act))) 0
                             activities,
                         st_activities = length activities\<rparr>)
         else None),
      sd_fitbit =
        (case fitbitResult of
           None \<Rightarrow> None
         | Some fitbitData \<Rightarrow>
             Some \<lparr>fb_steps = orZero (Option.bind (fd_summary fitbitData) fs_steps),
                   fb_calories = orZero (Option.bind (fd_summary fitbitData) fs_caloriesOut),
                   fb_distance =
                     orZero (Option.bind (fd_summary fitbitData)
                       (\<lambda>sm. case fs_distances sm of [] \<Rightarrow> None | d # ds \<Rightarrow> d))\<rparr>)\<rparr>"

text \<open>
  The object literal \<open>progressUpdate\<close>:
  \<open>syncedData.strava?.distance || syncedData.fitbit?.distance || 0\<close>, and the same for
  \<open>calories\<close>.
\<close>

definition mergeProgressUpdate :: "syncedData \<Rightarrow> progressData" where
  "mergeProgressUpdate sd =
     \<lparr>pd_distance =
        Some (if truthy (map_option st_distance (sd_strava sd))
              then orZero (map_option st_distance (sd_strava sd))
              else if truthy (map_option fb_distance (sd_fitbit sd))
              then orZero (map_option fb_distance (sd_fitbit sd))
              else 0),
      pd_calories =
        Some (if truthy (map_option st_calories (sd_strava sd))
              then orZero (map_option st_calories (sd_strava sd))
              else if truthy (map_option fb_calories (sd_fitbit sd))
              then orZero (map_option fb_calories (sd_fitbit sd))
              else 0),
      pd_minutes = None,
      pd_workoutCompleted = False\<rparr>"

text \<open>
  \<open>syncChallengeProgress\<close>. \<open>Object.keys(syncedData).length > 0\<close> holds when at least one
  source has been recorded; the result of the call of \<open>updateChallengeProgress\<close> is dropped.
\<close>

definition syncChallengeProgress ::
  "nat \<Rightarrow> string \<Rightarrow> stravaActivity list option \<Rightarrow> fitbitData option \<Rightarrow> state
     \<Rightarrow> (error + syncedData) \<times> state" where
  "syncChallengeProgress now challengeId' stravaResult fitbitResult s =
     (case getChallengeById s challengeId' of
        None \<Rightarrow> (Inl ChallengeNotFound, s)
      | Some c \<Rightarrow>
          (let sd = gatherSyncedData c stravaResult fitbitResult
           in if sd_strava sd \<noteq> None \<or> sd_fitbit sd \<noteq> None
              then (Inr sd,
                    snd (updateChallengeProgress now challengeId' (mergeProgressUpdate sd) s))
              else (Inl NoDataToSync, s)))"

section \<open>Specification-side definitions\<close>

text \<open>The array stored for a user id, the empty list when the key is missing.\<close>

definition recordsOf :: "state \<Rightarrow> string \<Rightarrow> userChallenge list" where
  "recordsOf s uid = (case allUserChallenges s uid of None \<Rightarrow> [] | Some ucs \<Rightarrow> ucs)"

text \<open>
  A goal-tracking pair as \<open>initializeChallengeProgress\<close> leaves it: \<open>(0, target)\<close> for a truthy
  goal, both keys missing otherwise.
\<close>

definition seededPair :: "rat option \<Rightarrow> rat option \<Rightarrow> rat option \<Rightarrow> bool" where
  "seededPair goal cur tot =
     (if truthy goal then cur = Some 0 \<and> tot = goal else cur = None \<and> tot = None)"

text \<open>\<open>completionPercentage >= 100\<close>, which is false of \<open>NaN\<close>.\<close>

definition completionReached :: "int option \<Rightarrow> bool" where
  "completionReached pct = (case pct of None \<Rightarrow> False | Some n \<Rightarrow> 100 \<le> n)"

text \<open>
  The transition rule, between the state before a successful update and the state after
  it. The returned percentage is the percentage of the logged-in user's record for the
  challenge with the returned progress in it. The state after differs from the state before
  in that record only: it holds the returned progress; if the percentage has reached 100
  it has the status \<open>completed\<close> and \<open>completedAt\<close> set to the time of the update; if not,
  its status and its \<open>completedAt\<close> are what they were.
\<close>

definition completionRule ::
  "nat \<Rightarrow> string \<Rightarrow> progress \<Rightarrow> int option \<Rightarrow> state \<Rightarrow> state \<Rightarrow> bool" where
  "completionRule now cid p pct s s' =
     (case session s of
        None \<Rightarrow> False
      | Some usr \<Rightarrow>
          (case allUserChallenges s (u_id usr) of
             None \<Rightarrow> False
           | Some ucs \<Rightarrow>
               (case findIndex (\<lambda>uc. challengeId uc = cid) ucs of
                  None \<Rightarrow> False
                | Some i \<Rightarrow>
                    pct = calculateChallengeProgress ((ucs ! i)\<lparr>progress := p\<rparr>)
                    \<and> s' = s\<lparr>allUserChallenges := (allUserChallenges s)
                          (u_id usr \<mapsto> ucs[i :=
                             if completionReached pct
                             then (ucs ! i)\<lparr>progress := p, status := Completed,
                                            completedAt := Some (ISODate now)\<rparr>
                             else (ucs ! i)\<lparr>progress := p\<rparr>])\<rparr>)))"

text \<open>\<open>currentDay\<close> does not exceed \<open>totalDays\<close>, in every stored record of every user.\<close>

definition dayInvariant :: "state \<Rightarrow> bool" where
  "dayInvariant s =
     (\<forall>uid ucs. allUserChallenges s uid = Some ucs \<longrightarrow>
        list_all (\<lambda>uc. currentDay (progress uc) \<le> totalDays (progress uc)) ucs)"

text \<open>An update that carries nothing: every field missing, zero or false.\<close>

definition emptyDelta :: "progressData \<Rightarrow> bool" where
  "emptyDelta pd =
     (\<not> truthy (pd_distance pd) \<and> \<not> truthy (pd_calories pd) \<and> \<not> truthy (pd_minutes pd)
      \<and> \<not> pd_workoutCompleted pd)"

text \<open>
  First available wins: the value of the first source if it is there and not zero, else
  that of the second source if it is there and not zero, else 0.
\<close>

definition firstAvailable :: "rat option \<Rightarrow> rat option \<Rightarrow> rat" where
  "firstAvailable primary secondary =
     (case primary of
        Some x \<Rightarrow> if x \<noteq> 0 then x else orZero secondary
      | None \<Rightarrow> orZero secondary)"

section \<open>Example data\<close>

definition demoUser :: user where
  "demoUser = \<lparr>u_id = ''1'', u_name = ''Demo User'', u_email = ''demo@fitchallenge.com''\<rparr>"

text \<open>A record of the demo user for a challenge id, with a given status and progress.\<close>

definition recordFor :: "string \<Rightarrow> status \<Rightarrow> progress \<Rightarrow> userChallenge" where
  "recordFor cid st p =
     \<lparr>uc_id = ''1_'' @ cid @ ''_0'', userId = ''1'', challengeId = cid,
      startDate = ISODate 0, endDate = ISODatePlusDays 0 (totalDays p), status = st,
      progress = p, joinedAt = ISODate 0, completedAt = None\<rparr>"

text \<open>The challenge of the scenario: \<open>{id: "X", duration: 10, goals: {totalDistance: 50,
  totalWorkouts: 5}}\<close>.\<close>

definition challengeX :: challenge where
  "challengeX =
     \<lparr>c_id = ''X'', title = ''X'', category = Running, difficulty = Beginner,
      duration = 10, participants = 0,
      goals = \<lparr>g_totalDistance = Some 50, g_totalWorkouts = Some 5, g_caloriesBurned = None,
               g_totalMinutes = None, g_totalSessions = None, g_other = []\<rparr>,
      featured = False\<rparr>"

definition stateX :: state where
  "stateX = \<lparr>session = Some demoUser, challenges = [challengeX], allUserChallenges = Map.empty\<rparr>"

text \<open>The catalogue of \<open>initializeDefaultChallenges\<close> (goals, duration and counters).\<close>

definition defaultChallenges :: "challenge list" where
  "defaultChallenges =
     [\<lparr>c_id = ''1'', title = ''30-Day Running Challenge'', category = Running,
       difficulty = Beginner, duration = 30, participants = 2453,
       goals = \<lparr>g_totalDistance = Some 50, g_totalWorkouts = Some 20, g_caloriesBurned = None,
                g_totalMinutes = None, g_totalSessions = None,
                g_other = [(''avgPace'', 13 / 2)]\<rparr>,
       featured = True\<rparr>,
      \<lparr>c_id = ''2'', title = ''Yoga Flow 14-Day'', category = Yoga,
       difficulty = Beginner, duration = 14, participants = 1892,
       goals = \<lparr>g_totalDistance = None, g_totalWorkouts = None, g_caloriesBurned = None,
                g_totalMinutes = Some 280, g_totalSessions = Some 14, g_other = []\<rparr>,
       featured = True\<rparr>,
      \<lparr>c_id = ''3'', title = ''Strength Builder 60-Day'', category = Strength,
       difficulty = Intermediate, duration = 60, participants = 3721,
       goals = \<lparr>g_totalDistance = None, g_totalWorkouts = Some 40, g_caloriesBurned = None,
                g_totalMinutes = None, g_totalSessions = None,
                g_other = [(''totalSets'', 480), (''weightLifted'', 50000)]\<rparr>,
       featured = True\<rparr>,
      \<lparr>c_id = ''4'', title = ''HIIT Burn 30-Day'', category = Hiit,
       difficulty = Advanced, duration = 30, participants = 1234,
       goals = \<lparr>g_totalDistance = None, g_totalWorkouts = Some 20,
                g_caloriesBurned = Some 10000, g_totalMinutes = Some 400,
                g_totalSessions = None, g_other = []\<rparr>,
       featured = False\<rparr>,
      \<lparr>c_id = ''5'', title = ''Cycling Endurance 30-Day'', category = Cycling,
       difficulty = Intermediate, duration = 30, participants = 987,
       goals = \<lparr>g_totalDistance = Some 300, g_totalWorkouts = None, g_caloriesBurned = None,
                g_totalMinutes = None, g_totalSessions = None,
                g_other = [(''totalRides'', 15), (''elevationGain'', 2000)]\<rparr>,
       featured = False\<rparr>]"

text \<open>A progress snapshot that tracks workouts only.\<close>

definition plainProgress :: progress where
  "plainProgress =
     \<lparr>currentDay = 1, totalDays = 30, completedWorkouts = 0, totalWorkouts = 20,
      currentDistance = None, totalDistance = None,
      currentCalories = None, totalCalories = None,
      currentMinutes = None, totalMinutes = None,
      currentSessions = None, totalSessions = None\<rparr>"

text \<open>
  The demo user logged in: with no records; with five active records and \<open>X\<close> in the
  catalogue; with one abandoned record for challenge \<open>"1"\<close>.
\<close>

definition freshState :: state where
  "freshState =
     \<lparr>session = Some demoUser, challenges = defaultChallenges, allUserChallenges = Map.empty\<rparr>"

definition fullState :: state where
  "fullState =
     \<lparr>session = Some demoUser, challenges = defaultChallenges @ [challengeX],
      allUserChallenges =
        [''1'' \<mapsto> map (\<lambda>cid. recordFor cid Active plainProgress)
                   [''1'', ''2'', ''3'', ''4'', ''5'']]\<rparr>"

definition abandonedState :: state where
  "abandonedState =
     \<lparr>session = Some demoUser, challenges = defaultChallenges,
      allUserChallenges = [''1'' \<mapsto> [recordFor ''1'' Abandoned plainProgress]]\<rparr>"

text \<open>A challenge with \<open>goals = {totalWorkouts: 2}\<close> and duration 2, and the update
  \<open>{workoutCompleted: true}\<close>.\<close>

definition challengeW :: challenge where
  "challengeW =
     \<lparr>c_id = ''W'', title = ''W'', category = Strength, difficulty = Beginner,
      duration = 2, participants = 0,
      goals = \<lparr>g_totalDistance = None, g_totalWorkouts = Some 2, g_caloriesBurned = None,
               g_totalMinutes = None, g_totalSessions = None, g_other = []\<rparr>,
      featured = False\<rparr>"

definition stateW :: state where
  "stateW = \<lparr>session = Some demoUser, challenges = [challengeW], allUserChallenges = Map.empty\<rparr>"

definition workoutDone :: progressData where
  "workoutDone =
     \<lparr>pd_distance = None, pd_calories = None, pd_minutes = None, pd_workoutCompleted = True\<rparr>"

text \<open>The demo user with one active record, for challenge \<open>"1"\<close>, as a join creates it.\<close>

definition joinedState :: state where
  "joinedState =
     \<lparr>session = Some demoUser, challenges = defaultChallenges,
      allUserChallenges =
        [''1'' \<mapsto> [recordFor ''1'' Active
           (plainProgress\<lparr>currentDistance := Some 0, totalDistance := Some 50\<rparr>)]]\<rparr>"

text \<open>The demo user on day 2 of 2 of challenge \<open>W\<close>, one workout done.\<close>

definition lastDayState :: state where
  "lastDayState =
     \<lparr>session = Some demoUser, challenges = defaultChallenges @ [challengeW],
      allUserChallenges =
        [''1'' \<mapsto> [recordFor ''W'' Active
           (plainProgress\<lparr>currentDay := 2, totalDays := 2,
                          completedWorkouts := 1, totalWorkouts := 2\<rparr>)]]\<rparr>"

text \<open>A Fitbit answer with steps and calories and no distance entry.\<close>

definition fitbitCaloriesOnly :: fitbitData where
  "fitbitCaloriesOnly =
     \<lparr>fd_summary = Some \<lparr>fs_steps = Some 1000, fs_caloriesOut = Some 300,
                          fs_distances = []\<rparr>\<rparr>"

section \<open>Auxiliary lemmas\<close>

lemma findIndex_None_iff: "findIndex P xs = None \<longleftrightarrow> \<not> list_ex P xs"
  by (induction xs) auto

lemma findIndex_SomeD:
  "findIndex P xs = Some i \<Longrightarrow> i < length xs \<and> P (xs ! i)"
  by (induction xs arbitrary: i) (auto split: if_splits)

lemma findIndex_append_new:
  "\<not> list_ex P xs \<Longrightarrow> P x \<Longrightarrow> findIndex P (xs @ [x]) = Some (length xs)"
  by (induction xs) auto

lemma findIndex_update:
  "findIndex P xs = Some i \<Longrightarrow> P v \<Longrightarrow> findIndex P (xs[i := v]) = Some i"
  by (induction xs arbitrary: i) (auto split: if_splits)

lemma getUserChallenges_session:
  "session s = Some usr \<Longrightarrow>
   getUserChallenges s None = (if u_id usr = [] then [] else recordsOf s (u_id usr))"
  by (simp add: getUserChallenges_def recordsOf_def)

lemma updateChallengeParticipants_frame:
  "session (updateChallengeParticipants cid n s) = session s"
  "allUserChallenges (updateChallengeParticipants cid n s) = allUserChallenges s"
  by (simp_all add: updateChallengeParticipants_def split: option.splits)

lemma joinChallenge_success:
  assumes "session s = Some usr"
    and "getChallengeById s cid = Some c"
    and "\<not> list_ex (\<lambda>uc. challengeId uc = cid) (recordsOf s (u_id usr))"
    and "length (filter (\<lambda>uc. status uc = Active) (recordsOf s (u_id usr))) < 5"
  shows "joinChallenge now cid s =
           (Inr (newUserChallenge now usr c cid),
            updateChallengeParticipants cid 1
              (s\<lparr>allUserChallenges := (allUserChallenges s)
                    (u_id usr \<mapsto> recordsOf s (u_id usr) @ [newUserChallenge now usr c cid])\<rparr>))"
  using assms
  by (simp add: joinChallenge_def hasJoinedChallenge_def getUserChallenges_session
        MAX_ACTIVE_CHALLENGES_def recordsOf_def Let_def)

lemma updateChallengeProgress_found:
  assumes "session s = Some usr"
    and "allUserChallenges s (u_id usr) = Some ucs"
    and "findIndex (\<lambda>uc. challengeId uc = cid) ucs = Some i"
  shows "updateChallengeProgress now cid pd s =
           (Inr (applyProgressData pd (progress (ucs ! i)),
                 calculateChallengeProgress
                   ((ucs ! i)\<lparr>progress := applyProgressData pd (progress (ucs ! i))\<rparr>)),
            s\<lparr>allUserChallenges := (allUserChallenges s)
                 (u_id usr \<mapsto> ucs[i := checkCompleted now
                    ((ucs ! i)\<lparr>progress := applyProgressData pd (progress (ucs ! i))\<rparr>)])\<rparr>)"
  using assms
  by (simp add: updateChallengeProgress_def Let_def checkCompleted_def split: option.splits)

text \<open>
  The rounding of doubles is visible in the result: for 23 of 40 workouts the quotient is
  the double \<open>0.575\<close>, its product with 100 is \<open>57.49999999999999\<close>, and the percentage is 57,
  where the exact value \<open>57.5\<close> would round to 58.
\<close>

lemma calculateChallengeProgress_23_of_40:
  "calculateChallengeProgress (recordFor ''X'' Active
     \<lparr>currentDay = 1, totalDays = 40, completedWorkouts = 23, totalWorkouts = 40,
      currentDistance = None, totalDistance = None,
      currentCalories = None, totalCalories = None,
      currentMinutes = None, totalMinutes = None,
      currentSessions = None, totalSessions = None\<rparr>) = Some 57"
  by code_simp

text \<open>Sums of small integers, and a conversion of metres to kilometres, in doubles.\<close>

lemma js_arith_examples:
  "js_add 0 0 = 0" "js_add 0 1 = 1" "js_add 1 1 = 2" "js_add 2 1 = 3" "js_add 0 25 = 25"
  "js_add 0 (js_div 5000 1000) = 5"
  by code_simp+

text \<open>
  What holds of the percentage for all progress values: it is never above 100, and it is 0
  when no criterion is tracked.
\<close>

lemma calculateChallengeProgress_le_100:
  "calculateChallengeProgress uc = Some n \<Longrightarrow> n \<le> 100"
  by (auto simp: calculateChallengeProgress_def Let_def split: if_splits option.splits)

lemma calculateChallengeProgress_no_criteria:
  assumes "totalWorkouts (progress uc) = 0"
    and "\<not> truthy (totalDistance (progress uc))"
    and "\<not> truthy (totalCalories (progress uc))"
    and "\<not> truthy (totalMinutes (progress uc))"
    and "\<not> truthy (totalSessions (progress uc))"
  shows "calculateChallengeProgress uc = Some 0"
  using assms by (simp add: calculateChallengeProgress_def addCriterion_def truthy_def)

lemma joinChallenge_InrD:
  assumes "joinChallenge now cid s = (Inr uc, s')"
  shows "\<exists>usr c. session s = Some usr \<and> getChallengeById s cid = Some c
           \<and> \<not> hasJoinedChallenge s cid
           \<and> uc = newUserChallenge now usr c cid
           \<and> s' = updateChallengeParticipants cid 1
                    (s\<lparr>allUserChallenges := (allUserChallenges s)
                        (u_id usr \<mapsto> recordsOf s (u_id usr) @ [uc])\<rparr>)"
  using assms
  by (auto simp: joinChallenge_def Let_def recordsOf_def split: option.splits if_splits)

lemma initializeChallengeProgress_base:
  "currentDay (initializeChallengeProgress c p) = currentDay p"
  "totalDays (initializeChallengeProgress c p) = totalDays p"
  "completedWorkouts (initializeChallengeProgress c p) = completedWorkouts p"
  "totalWorkouts (initializeChallengeProgress c p) = totalWorkouts p"
  by (simp_all add: initializeChallengeProgress_def Let_def)

lemma initializeChallengeProgress_pairs:
  assumes "currentDistance p = None" "totalDistance p = None"
    "currentCalories p = None" "totalCalories p = None"
    "currentMinutes p = None" "totalMinutes p = None"
    "currentSessions p = None" "totalSessions p = None"
  shows "seededPair (g_totalDistance (goals c))
           (currentDistance (initializeChallengeProgress c p))
           (totalDistance (initializeChallengeProgress c p))"
    and "seededPair (g_caloriesBurned (goals c))
           (currentCalories (initializeChallengeProgress c p))
           (totalCalories (initializeChallengeProgress c p))"
    and "seededPair (g_totalMinutes (goals c))
           (currentMinutes (initializeChallengeProgress c p))
           (totalMinutes (initializeChallengeProgress c p))"
    and "seededPair (g_totalSessions (goals c))
           (currentSessions (initializeChallengeProgress c p))
           (totalSessions (initializeChallengeProgress c p))"
  using assms
  by (simp_all add: initializeChallengeProgress_def Let_def seededPair_def)

lemma checkCompleted_keeps:
  "progress (checkCompleted now uc) = progress uc"
  "challengeId (checkCompleted now uc) = challengeId uc"
  by (simp_all add: checkCompleted_def split: option.splits)

lemma calculateChallengeProgress_cong:
  "progress a = progress b \<Longrightarrow> calculateChallengeProgress a = calculateChallengeProgress b"
  by (simp add: calculateChallengeProgress_def)

lemma checkCompleted_reached:
  "calculateChallengeProgress uc = Some n \<Longrightarrow> 100 \<le> n \<Longrightarrow>
   status (checkCompleted now uc) = Completed
   \<and> completedAt (checkCompleted now uc) = Some (ISODate now)"
  by (simp add: checkCompleted_def)

lemma updateChallengeProgress_InrD:
  assumes "updateChallengeProgress now cid pd s = (Inr (p, pct), s')"
  shows "\<exists>usr ucs i. session s = Some usr \<and> allUserChallenges s (u_id usr) = Some ucs
           \<and> findIndex (\<lambda>uc. challengeId uc = cid) ucs = Some i"
  using assms
  by (auto simp: updateChallengeProgress_def Let_def split: option.splits)

lemma checkCompleted_cases:
  "checkCompleted now uc =
     (if completionReached (calculateChallengeProgress uc)
      then uc\<lparr>status := Completed, completedAt := Some (ISODate now)\<rparr>
      else uc)"
  by (simp add: checkCompleted_def completionReached_def split: option.splits)

lemma updateChallengeProgress_completionRule:
  assumes "updateChallengeProgress now cid pd s = (Inr (p, pct), s')"
  shows "completionRule now cid p pct s s'"
proof -
  from updateChallengeProgress_InrD [OF assms] obtain usr ucs i
    where ses: "session s = Some usr" and auc: "allUserChallenges s (u_id usr) = Some ucs"
      and fi: "findIndex (\<lambda>uc. challengeId uc = cid) ucs = Some i"
    by blast
  let ?uc1 = "(ucs ! i)\<lparr>progress := applyProgressData pd (progress (ucs ! i))\<rparr>"
  from updateChallengeProgress_found [OF ses auc fi, of now pd] assms
  have p: "p = applyProgressData pd (progress (ucs ! i))"
    and pct: "pct = calculateChallengeProgress ?uc1"
    and s': "s' = s\<lparr>allUserChallenges := (allUserChallenges s)
                   (u_id usr \<mapsto> ucs[i := checkCompleted now ?uc1])\<rparr>"
    by simp_all
  have "checkCompleted now ?uc1 =
          (if completionReached pct
           then (ucs ! i)\<lparr>progress := p, status := Completed,
                          completedAt := Some (ISODate now)\<rparr>
           else (ucs ! i)\<lparr>progress := p\<rparr>)"
    by (simp add: checkCompleted_cases pct p)
  with s' pct p show ?thesis
    by (simp add: completionRule_def ses auc fi)
qed

lemma updateChallengeProgress_last:
  assumes "session s = Some usr"
    and "allUserChallenges s (u_id usr) = Some (old @ [uc])"
    and "\<not> list_ex (\<lambda>u. challengeId u = cid) old"
    and "challengeId uc = cid"
  shows "updateChallengeProgress now cid pd s =
           (Inr (applyProgressData pd (progress uc),
                 calculateChallengeProgress (uc\<lparr>progress := applyProgressData pd (progress uc)\<rparr>)),
            s\<lparr>allUserChallenges := (allUserChallenges s)
                 (u_id usr \<mapsto> old @ [checkCompleted now
                    (uc\<lparr>progress := applyProgressData pd (progress uc)\<rparr>)])\<rparr>)"
  using updateChallengeProgress_found [OF assms(1,2) findIndex_append_new [OF assms(3,4)], of now pd]
  by simp

lemma find_eq_findIndex: "find P xs = map_option (\<lambda>i. xs ! i) (findIndex P xs)"
  by (induction xs) (auto simp: option.map_comp comp_def)

lemma updateChallengeParticipants_challenges:
  "challenges (updateChallengeParticipants cid n s) =
     (case findIndex (\<lambda>c. c_id c = cid) (challenges s) of
        None \<Rightarrow> challenges s
      | Some i \<Rightarrow> (challenges s)[i := (challenges s ! i)
                     \<lparr>participants := participants (challenges s ! i) + n\<rparr>])"
  by (simp add: updateChallengeParticipants_def split: option.splits)

lemma participants_list_inverse:
  assumes "findIndex (\<lambda>c. c_id c = cid) xs = Some i"
  shows "findIndex (\<lambda>c. c_id c = cid)
           (xs[i := (xs ! i)\<lparr>participants := participants (xs ! i) + n\<rparr>]) = Some i"
    and "(xs[i := (xs ! i)\<lparr>participants := participants (xs ! i) + n\<rparr>])
           [i := (xs[i := (xs ! i)\<lparr>participants := participants (xs ! i) + n\<rparr>] ! i)
               \<lparr>participants :=
                  participants (xs[i := (xs ! i)\<lparr>participants := participants (xs ! i) + n\<rparr>] ! i)
                    + (- n)\<rparr>] = xs"
proof -
  from findIndex_SomeD [OF assms] have i: "i < length xs" and c: "c_id (xs ! i) = cid"
    by simp_all
  show "findIndex (\<lambda>c. c_id c = cid)
           (xs[i := (xs ! i)\<lparr>participants := participants (xs ! i) + n\<rparr>]) = Some i"
    by (rule findIndex_update [OF assms]) (simp add: c)
  show "(xs[i := (xs ! i)\<lparr>participants := participants (xs ! i) + n\<rparr>])
           [i := (xs[i := (xs ! i)\<lparr>participants := participants (xs ! i) + n\<rparr>] ! i)
               \<lparr>participants :=
                  participants (xs[i := (xs ! i)\<lparr>participants := participants (xs ! i) + n\<rparr>] ! i)
                    + (- n)\<rparr>] = xs"
    using i by simp
qed

lemma updateChallengeParticipants_inverse:
  assumes "challenges s1 = challenges (updateChallengeParticipants cid n s)"
  shows "challenges (updateChallengeParticipants cid (- n) s1) = challenges s"
proof (cases "findIndex (\<lambda>c. c_id c = cid) (challenges s)")
  case None
  then show ?thesis
    using assms by (simp add: updateChallengeParticipants_challenges)
next
  case (Some i)
  from participants_list_inverse [OF Some, of n] Some assms show ?thesis
    by (simp add: updateChallengeParticipants_challenges)
qed

lemma getChallengeById_participants:
  "map_option participants (getChallengeById (updateChallengeParticipants cid n s) cid) =
   map_option (\<lambda>k. k + n) (map_option participants (getChallengeById s cid))"
proof (cases "findIndex (\<lambda>c. c_id c = cid) (challenges s)")
  case None
  then show ?thesis
    by (simp add: getChallengeById_def find_eq_findIndex updateChallengeParticipants_challenges)
next
  case (Some i)
  from findIndex_SomeD [OF Some] have i: "i < length (challenges s)"
    by simp
  from participants_list_inverse(1) [OF Some, of n] Some i show ?thesis
    by (simp add: getChallengeById_def find_eq_findIndex updateChallengeParticipants_challenges)
qed

lemma leaveChallenge_last:
  assumes "session s = Some usr"
    and "allUserChallenges s (u_id usr) = Some (old @ [uc])"
    and "\<not> list_ex (\<lambda>u. challengeId u = cid) old"
    and "challengeId uc = cid"
  shows "leaveChallenge now cid s =
           (Inr (),
            updateChallengeParticipants cid (- 1)
              (s\<lparr>allUserChallenges := (allUserChallenges s)
                   (u_id usr \<mapsto> old @ [uc\<lparr>status := Abandoned, endDate := ISODate now\<rparr>])\<rparr>))"
  using assms findIndex_append_new [OF assms(3,4)]
  by (simp add: leaveChallenge_def Let_def)

lemma list_all_update:
  "list_all P xs \<Longrightarrow> P v \<Longrightarrow> list_all P (xs[i := v])"
  by (induction xs arbitrary: i) (auto split: nat.splits)

lemma applyProgressData_day:
  assumes "currentDay p \<le> totalDays p"
  shows "currentDay (applyProgressData pd p) \<le> totalDays (applyProgressData pd p)"
  using assms by (simp add: applyProgressData_def Let_def)

lemma applyProgressData_empty:
  "emptyDelta pd \<Longrightarrow> applyProgressData pd p = p"
  by (simp add: applyProgressData_def emptyDelta_def)

lemma dayInvariant_update:
  assumes "dayInvariant s"
  shows "dayInvariant (snd (updateChallengeProgress now cid pd s))"
proof (cases "\<exists>p pct s'. updateChallengeProgress now cid pd s = (Inr (p, pct), s')")
  case False
  then have "snd (updateChallengeProgress now cid pd s) = s"
    by (auto simp: updateChallengeProgress_def Let_def split: option.splits)
  with assms show ?thesis
    by simp
next
  case True
  then obtain p pct s' where u: "updateChallengeProgress now cid pd s = (Inr (p, pct), s')"
    by blast
  from updateChallengeProgress_InrD [OF u] obtain usr ucs i
    where ses: "session s = Some usr" and auc: "allUserChallenges s (u_id usr) = Some ucs"
      and fi: "findIndex (\<lambda>uc. challengeId uc = cid) ucs = Some i"
    by blast
  let ?P = "\<lambda>uc. currentDay (progress uc) \<le> totalDays (progress uc)"
  let ?uc2 = "checkCompleted now
                ((ucs ! i)\<lparr>progress := applyProgressData pd (progress (ucs ! i))\<rparr>)"
  from assms auc have all: "list_all ?P ucs"
    by (simp add: dayInvariant_def)
  from findIndex_SomeD [OF fi] have "i < length ucs"
    by simp
  with all have "?P (ucs ! i)"
    by (simp add: list_all_length)
  then have "?P ?uc2"
    by (simp add: checkCompleted_keeps applyProgressData_day)
  with all have new: "list_all ?P (ucs[i := ?uc2])"
    by (rule list_all_update)
  from updateChallengeProgress_found [OF ses auc fi, of now pd]
  have "snd (updateChallengeProgress now cid pd s) =
          s\<lparr>allUserChallenges := (allUserChallenges s)(u_id usr \<mapsto> ucs[i := ?uc2])\<rparr>"
    by simp
  with assms new show ?thesis
    by (simp add: dayInvariant_def)
qed

lemma dayInvariant_join:
  assumes "dayInvariant s" and "list_all (\<lambda>c. 1 \<le> duration c) (challenges s)"
  shows "dayInvariant (snd (joinChallenge now cid s))"
proof (cases "\<exists>uc s'. joinChallenge now cid s = (Inr uc, s')")
  case False
  then have "snd (joinChallenge now cid s) = s"
    by (auto simp: joinChallenge_def Let_def split: option.splits)
  with assms show ?thesis
    by simp
next
  case True
  then obtain uc s' where j: "joinChallenge now cid s = (Inr uc, s')"
    by blast
  from joinChallenge_InrD [OF j] obtain usr c
    where c: "getChallengeById s cid = Some c"
      and uc: "uc = newUserChallenge now usr c cid"
      and s': "s' = updateChallengeParticipants cid 1
                 (s\<lparr>allUserChallenges := (allUserChallenges s)
                     (u_id usr \<mapsto> recordsOf s (u_id usr) @ [uc])\<rparr>)"
    by blast
  let ?P = "\<lambda>uc. currentDay (progress uc) \<le> totalDays (progress uc)"
  from c have "c \<in> set (challenges s)"
    by (auto simp: getChallengeById_def find_Some_iff)
  with assms(2) have "1 \<le> duration c"
    by (simp add: list_all_iff)
  then have new: "?P uc"
    by (simp add: uc newUserChallenge_def initializeChallengeProgress_base)
  from assms(1) have old: "list_all ?P (recordsOf s (u_id usr))"
    by (simp add: dayInvariant_def recordsOf_def split: option.splits)
  from j s' have "snd (joinChallenge now cid s) = s'"
    by simp
  with assms(1) old new show ?thesis
    by (simp add: s' dayInvariant_def updateChallengeParticipants_frame)
qed

lemma dayInvariant_leave:
  assumes "dayInvariant s"
  shows "dayInvariant (snd (leaveChallenge now cid s))"
proof (cases "\<exists>usr ucs i. session s = Some usr \<and> allUserChallenges s (u_id usr) = Some ucs
                \<and> findIndex (\<lambda>uc. challengeId uc = cid) ucs = Some i")
  case False
  then have "snd (leaveChallenge now cid s) = s"
    by (auto simp: leaveChallenge_def Let_def split: option.splits)
  with assms show ?thesis
    by simp
next
  case True
  then obtain usr ucs i
    where ses: "session s = Some usr" and auc: "allUserChallenges s (u_id usr) = Some ucs"
      and fi: "findIndex (\<lambda>uc. challengeId uc = cid) ucs = Some i"
    by blast
  let ?P = "\<lambda>uc. currentDay (progress uc) \<le> totalDays (progress uc)"
  let ?uc = "(ucs ! i)\<lparr>status := Abandoned, endDate := ISODate now\<rparr>"
  from assms auc have all: "list_all ?P ucs"
    by (simp add: dayInvariant_def)
  from findIndex_SomeD [OF fi] have "i < length ucs"
    by simp
  with all have "?P ?uc"
    by (simp add: list_all_length)
  with all have new: "list_all ?P (ucs[i := ?uc])"
    by (rule list_all_update)
  have "snd (leaveChallenge now cid s) =
          updateChallengeParticipants cid (- 1)
            (s\<lparr>allUserChallenges := (allUserChallenges s)(u_id usr \<mapsto> ucs[i := ?uc])\<rparr>)"
    by (simp add: leaveChallenge_def Let_def ses auc fi)
  with assms new show ?thesis
    by (simp add: dayInvariant_def updateChallengeParticipants_frame)
qed

lemma dayInvariant_sync:
  assumes "dayInvariant s"
  shows "dayInvariant (snd (syncChallengeProgress now cid stravaResult fitbitResult s))"
  using assms dayInvariant_update [OF assms]
  by (simp add: syncChallengeProgress_def Let_def split: option.splits)

lemma mergeProgressUpdate_firstAvailable:
  "mergeProgressUpdate sd =
     \<lparr>pd_distance = Some (firstAvailable (map_option st_distance (sd_strava sd))
                                         (map_option fb_distance (sd_fitbit sd))),
      pd_calories = Some (firstAvailable (map_option st_calories (sd_strava sd))
                                         (map_option fb_calories (sd_fitbit sd))),
      pd_minutes = None,
      pd_workoutCompleted = False\<rparr>"
  by (simp add: mergeProgressUpdate_def firstAvailable_def truthy_def orZero_def
        split: option.splits)

lemma gatherSyncedData_none:
  assumes "fitbitResult = None"
    and "stravaResult = None \<or> (category c \<noteq> Running \<and> category c \<noteq> Cycling)"
  shows "gatherSyncedData c stravaResult fitbitResult = \<lparr>sd_strava = None, sd_fitbit = None\<rparr>"
  using assms by (auto simp: gatherSyncedData_def)

section \<open>Claims\<close>

subsection \<open>C1: range of the completion percentage\<close>

text \<open>
  C1. The claim asks for a value in \<open>[0, 100]\<close> for any progress values, and so does the
  comment of the function (\<open>@returns {number} Completion percentage (0-100)\<close>); the function
  caps the rounded mean at 100 with \<open>Math.min\<close> and applies no lower bound, where
  \<open>generateProgressBar\<close> clamps on both sides. For the record with 0 of 5 workouts and a
  distance of -50 of 50 it returns -50, the mean of 0 and -100. That record is the one that
  \<open>updateChallengeProgress("X", {distance: -50})\<close> stores after a join of \<open>X\<close>, and -50 is the
  percentage that this update returns; the two-sided clamp maps it to 0.
\<close>

theorem calculateChallengeProgress_negative:
  "calculateChallengeProgress (recordFor ''X'' Active
     \<lparr>currentDay = 1, totalDays = 10, completedWorkouts = 0, totalWorkouts = 5,
      currentDistance = Some (- 50), totalDistance = Some 50,
      currentCalories = None, totalCalories = None,
      currentMinutes = None, totalMinutes = None,
      currentSessions = None, totalSessions = None\<rparr>) = Some (- 50)
   \<and> fst (updateChallengeProgress 1 ''X''
          \<lparr>pd_distance = Some (- 50), pd_calories = None, pd_minutes = None,
           pd_workoutCompleted = False\<rparr> (snd (joinChallenge 0 ''X'' stateX)))
     = Inr (\<lparr>currentDay = 1, totalDays = 10, completedWorkouts = 0, totalWorkouts = 5,
            currentDistance = Some (- 50), totalDistance = Some 50,
            currentCalories = None, totalCalories = None,
            currentMinutes = None, totalMinutes = None,
            currentSessions = None, totalSessions = None\<rparr>, Some (- 50))
   \<and> safePercentage (- 50) = 0"
  by code_simp

subsection \<open>C2: the join and update scenario\<close>

text \<open>
  C2. In any state where a user is logged in, the catalogue entry found for \<open>"X"\<close> has
  duration 10 and goals \<open>{totalDistance: 50, totalWorkouts: 5}\<close>, the user has no record for
  \<open>"X"\<close> and fewer than 5 active records: \<open>joinChallenge\<close> returns a record with the progress
  \<open>{currentDistance: 0, totalDistance: 50, currentDay: 1, totalDays: 10, completedWorkouts: 0,
  totalWorkouts: 5}\<close>, and \<open>updateChallengeProgress("X", {distance: 25, workoutCompleted:
  true})\<close> after it returns \<open>currentDistance = 25\<close>, \<open>completedWorkouts = 1\<close>,
  \<open>currentDay = 2\<close> and the percentage 35; the stored record keeps the status \<open>active\<close>.
\<close>

theorem join_then_update_scenario:
  assumes "session s = Some usr"
    and "getChallengeById s ''X'' = Some c"
    and "duration c = 10"
    and "g_totalDistance (goals c) = Some 50"
    and "g_totalWorkouts (goals c) = Some 5"
    and "g_caloriesBurned (goals c) = None"
    and "g_totalMinutes (goals c) = None"
    and "g_totalSessions (goals c) = None"
    and "\<not> list_ex (\<lambda>uc. challengeId uc = ''X'') (recordsOf s (u_id usr))"
    and "length (filter (\<lambda>uc. status uc = Active) (recordsOf s (u_id usr))) < 5"
    and "joinChallenge t1 ''X'' s = (r1, s1)"
    and "updateChallengeProgress t2 ''X''
           \<lparr>pd_distance = Some 25, pd_calories = None, pd_minutes = None,
            pd_workoutCompleted = True\<rparr> s1 = (r2, s2)"
  shows "\<exists>uc p. r1 = Inr uc
           \<and> progress uc =
               \<lparr>currentDay = 1, totalDays = 10, completedWorkouts = 0, totalWorkouts = 5,
                currentDistance = Some 0, totalDistance = Some 50,
                currentCalories = None, totalCalories = None,
                currentMinutes = None, totalMinutes = None,
                currentSessions = None, totalSessions = None\<rparr>
           \<and> r2 = Inr (p, Some 35)
           \<and> currentDistance p = Some 25 \<and> completedWorkouts p = 1 \<and> currentDay p = 2
           \<and> allUserChallenges s2 (u_id usr)
               = Some (recordsOf s (u_id usr) @ [uc\<lparr>progress := p\<rparr>])
           \<and> status uc = Active"
proof -
  let ?uc = "newUserChallenge t1 usr c ''X''"
  let ?old = "recordsOf s (u_id usr)"
  let ?pd = "\<lparr>pd_distance = Some 25, pd_calories = None, pd_minutes = None,
              pd_workoutCompleted = True\<rparr>"
  have j: "joinChallenge t1 ''X'' s =
             (Inr ?uc, updateChallengeParticipants ''X'' 1
                (s\<lparr>allUserChallenges := (allUserChallenges s)(u_id usr \<mapsto> ?old @ [?uc])\<rparr>))"
    by (rule joinChallenge_success [OF assms(1,2,9,10)])
  with assms(11) have r1: "r1 = Inr ?uc"
    and s1: "s1 = updateChallengeParticipants ''X'' 1
                (s\<lparr>allUserChallenges := (allUserChallenges s)(u_id usr \<mapsto> ?old @ [?uc])\<rparr>)"
    by simp_all
  have pr: "progress ?uc =
      \<lparr>currentDay = 1, totalDays = 10, completedWorkouts = 0, totalWorkouts = 5,
       currentDistance = Some 0, totalDistance = Some 50,
       currentCalories = None, totalCalories = None,
       currentMinutes = None, totalMinutes = None,
       currentSessions = None, totalSessions = None\<rparr>"
    using assms(3-8)
    by (simp add: newUserChallenge_def initializeChallengeProgress_def truthy_def orZero_def)
  have st: "status ?uc = Active" and ci: "challengeId ?uc = ''X''"
    by (simp_all add: newUserChallenge_def)
  have ses: "session s1 = Some usr"
    by (simp add: s1 updateChallengeParticipants_frame assms(1))
  have auc: "allUserChallenges s1 (u_id usr) = Some (?old @ [?uc])"
    by (simp add: s1 updateChallengeParticipants_frame)
  have fi: "findIndex (\<lambda>uc. challengeId uc = ''X'') (?old @ [?uc]) = Some (length ?old)"
    by (rule findIndex_append_new [OF assms(9) ci])
  let ?p = "applyProgressData ?pd (progress ?uc)"
  have p: "?p =
      \<lparr>currentDay = 2, totalDays = 10, completedWorkouts = 1, totalWorkouts = 5,
       currentDistance = Some 25, totalDistance = Some 50,
       currentCalories = None, totalCalories = None,
       currentMinutes = None, totalMinutes = None,
       currentSessions = None, totalSessions = None\<rparr>"
    by (simp add: pr applyProgressData_def truthy_def orZero_def js_arith_examples)
  have "calculateChallengeProgress (?uc\<lparr>progress := ?p\<rparr>) =
        calculateChallengeProgress (recordFor ''X'' Active
          \<lparr>currentDay = 2, totalDays = 10, completedWorkouts = 1, totalWorkouts = 5,
       currentDistance = Some 25, totalDistance = Some 50,
       currentCalories = None, totalCalories = None,
       currentMinutes = None, totalMinutes = None,
       currentSessions = None, totalSessions = None\<rparr>)"
    by (rule calculateChallengeProgress_cong) (simp add: p recordFor_def)
  also have "\<dots> = Some 35"
    by code_simp
  finally have pct: "calculateChallengeProgress (?uc\<lparr>progress := ?p\<rparr>) = Some 35" .
  have cc: "checkCompleted t2 (?uc\<lparr>progress := ?p\<rparr>) = ?uc\<lparr>progress := ?p\<rparr>"
    by (simp add: checkCompleted_def pct)
  have u: "updateChallengeProgress t2 ''X'' ?pd s1 =
             (Inr (?p, Some 35),
              s1\<lparr>allUserChallenges := (allUserChallenges s1)
                   (u_id usr \<mapsto> ?old @ [?uc\<lparr>progress := ?p\<rparr>])\<rparr>)"
    using updateChallengeProgress_found [OF ses auc fi, of t2 ?pd]
    by (simp add: pct cc)
  with assms(12) have r2: "r2 = Inr (?p, Some 35)"
    and s2: "s2 = s1\<lparr>allUserChallenges := (allUserChallenges s1)
                   (u_id usr \<mapsto> ?old @ [?uc\<lparr>progress := ?p\<rparr>])\<rparr>"
    by simp_all
  have fin: "allUserChallenges s2 (u_id usr) = Some (?old @ [?uc\<lparr>progress := ?p\<rparr>])"
    by (simp add: s2)
  have vals: "currentDistance ?p = Some 25" "completedWorkouts ?p = 1" "currentDay ?p = 2"
    by (simp_all add: p)
  from r1 pr r2 vals fin st show ?thesis
    by blast
qed

text \<open>Witness: the demo user, logged in, with the catalogue \<open>[X]\<close> and no records.\<close>

theorem join_then_update_scenario_witness:
  "session stateX = Some demoUser
   \<and> getChallengeById stateX ''X'' = Some challengeX
   \<and> recordsOf stateX ''1'' = []
   \<and> map_sum id progress (fst (joinChallenge 0 ''X'' stateX)) =
        Inr \<lparr>currentDay = 1, totalDays = 10, completedWorkouts = 0, totalWorkouts = 5,
             currentDistance = Some 0, totalDistance = Some 50,
             currentCalories = None, totalCalories = None,
             currentMinutes = None, totalMinutes = None,
             currentSessions = None, totalSessions = None\<rparr>
   \<and> map_sum id snd (fst (updateChallengeProgress 1 ''X''
           \<lparr>pd_distance = Some 25, pd_calories = None, pd_minutes = None,
            pd_workoutCompleted = True\<rparr> (snd (joinChallenge 0 ''X'' stateX)))) = Inr (Some 35)"
proof -
  have h: "session stateX = Some demoUser" "getChallengeById stateX ''X'' = Some challengeX"
    "duration challengeX = 10"
    "g_totalDistance (goals challengeX) = Some 50"
    "g_totalWorkouts (goals challengeX) = Some 5"
    "g_caloriesBurned (goals challengeX) = None"
    "g_totalMinutes (goals challengeX) = None"
    "g_totalSessions (goals challengeX) = None"
    by (simp_all add: stateX_def challengeX_def getChallengeById_def)
  have r: "recordsOf stateX (u_id demoUser) = []"
    by (simp add: recordsOf_def stateX_def)
  have n: "\<not> list_ex (\<lambda>uc. challengeId uc = ''X'') (recordsOf stateX (u_id demoUser))"
    "length (filter (\<lambda>uc. status uc = Active) (recordsOf stateX (u_id demoUser))) < 5"
    by (simp_all add: r)
  from join_then_update_scenario [OF h n surjective_pairing surjective_pairing, of 0 1]
  obtain uc p where "fst (joinChallenge 0 ''X'' stateX) = Inr uc"
    and "progress uc = \<lparr>currentDay = 1, totalDays = 10, completedWorkouts = 0, totalWorkouts = 5,
             currentDistance = Some 0, totalDistance = Some 50,
             currentCalories = None, totalCalories = None,
             currentMinutes = None, totalMinutes = None,
             currentSessions = None, totalSessions = None\<rparr>"
    and "fst (updateChallengeProgress 1 ''X''
           \<lparr>pd_distance = Some 25, pd_calories = None, pd_minutes = None,
            pd_workoutCompleted = True\<rparr> (snd (joinChallenge 0 ''X'' stateX))) = Inr (p, Some 35)"
    by blast
  then show ?thesis
    using h r by (simp add: demoUser_def)
qed

subsection \<open>C3: the cap on active records\<close>

text \<open>
  C3. A logged-in user (with a non-empty id, as \<open>auth.js\<close> issues them) who holds 5 or
  more records with status \<open>active\<close> and none for the challenge: \<open>joinChallenge\<close> on a
  challenge of the catalogue returns the failure \<open>ActiveLimitExceeded\<close> and the state is
  returned as it was, so no record is created and no \<open>participants\<close> counter changes.
\<close>

theorem join_cap:
  assumes "session s = Some usr"
    and "u_id usr \<noteq> []"
    and "getChallengeById s cid = Some c"
    and "\<not> list_ex (\<lambda>uc. challengeId uc = cid) (recordsOf s (u_id usr))"
    and "5 \<le> length (filter (\<lambda>uc. status uc = Active) (recordsOf s (u_id usr)))"
  shows "joinChallenge now cid s = (Inl ActiveLimitExceeded, s)"
  using assms
  by (simp add: joinChallenge_def hasJoinedChallenge_def getUserChallenges_session
        MAX_ACTIVE_CHALLENGES_def)

text \<open>Witness: the demo user with five active records joins \<open>X\<close>.\<close>

theorem join_cap_witness:
  "session fullState = Some demoUser
   \<and> u_id demoUser \<noteq> []
   \<and> getChallengeById fullState ''X'' = Some challengeX
   \<and> \<not> list_ex (\<lambda>uc. challengeId uc = ''X'') (recordsOf fullState (u_id demoUser))
   \<and> length (filter (\<lambda>uc. status uc = Active) (recordsOf fullState (u_id demoUser))) = 5
   \<and> joinChallenge 7 ''X'' fullState = (Inl ActiveLimitExceeded, fullState)"
proof -
  have h1: "session fullState = Some demoUser"
    by (simp add: fullState_def)
  have h2: "u_id demoUser \<noteq> []"
    by (simp add: demoUser_def)
  have h3: "getChallengeById fullState ''X'' = Some challengeX"
    by (simp add: getChallengeById_def fullState_def defaultChallenges_def challengeX_def)
  have r: "recordsOf fullState (u_id demoUser) =
             map (\<lambda>cid. recordFor cid Active plainProgress) [''1'', ''2'', ''3'', ''4'', ''5'']"
    by (simp add: recordsOf_def fullState_def demoUser_def)
  have h4: "\<not> list_ex (\<lambda>uc. challengeId uc = ''X'') (recordsOf fullState (u_id demoUser))"
    by (simp add: r recordFor_def)
  have h5: "length (filter (\<lambda>uc. status uc = Active) (recordsOf fullState (u_id demoUser))) = 5"
    by (simp add: r recordFor_def)
  from h5 have h5': "5 \<le> length (filter (\<lambda>uc. status uc = Active)
                                    (recordsOf fullState (u_id demoUser)))"
    by simp
  from join_cap [OF h1 h2 h3 h4 h5', of 7] h1 h2 h3 h4 h5 show ?thesis
    by simp
qed

subsection \<open>C4: when a join is refused as already joined\<close>

text \<open>
  C4. As stated the claim fails: \<open>hasJoinedChallenge\<close> looks for any record with the
  challenge id and does not read \<open>status\<close>. The demo user, whose only record for challenge
  \<open>"1"\<close> is abandoned and who has no active record, is refused.
\<close>

theorem join_refuses_abandoned:
  "fst (joinChallenge 7 ''1'' abandonedState) = Inl AlreadyJoined"
  by (simp add: joinChallenge_def abandonedState_def getChallengeById_def defaultChallenges_def
        hasJoinedChallenge_def getUserChallenges_def demoUser_def recordFor_def)

text \<open>
  C4, amended. \<open>joinChallenge\<close> fails with \<open>AlreadyJoined\<close> exactly when a user is logged in
  (with a non-empty id), the challenge is in the catalogue and the user has a record for
  it, whatever the status of that record.
\<close>

theorem join_already_joined_iff:
  "fst (joinChallenge now cid s) = Inl AlreadyJoined \<longleftrightarrow>
     (case session s of
        None \<Rightarrow> False
      | Some usr \<Rightarrow>
          u_id usr \<noteq> [] \<and> getChallengeById s cid \<noteq> None
          \<and> list_ex (\<lambda>uc. challengeId uc = cid) (recordsOf s (u_id usr)))"
  by (auto simp: joinChallenge_def hasJoinedChallenge_def getUserChallenges_session Let_def
        split: option.splits)

text \<open>Witness: the abandoned record of the demo user.\<close>

theorem join_already_joined_iff_witness:
  "session abandonedState = Some demoUser
   \<and> map status (recordsOf abandonedState (u_id demoUser)) = [Abandoned]
   \<and> fst (joinChallenge 7 ''1'' abandonedState) = Inl AlreadyJoined"
proof -
  have h1: "session abandonedState = Some demoUser"
    by (simp add: abandonedState_def)
  have r: "recordsOf abandonedState (u_id demoUser) = [recordFor ''1'' Abandoned plainProgress]"
    by (simp add: recordsOf_def abandonedState_def demoUser_def)
  have c: "getChallengeById abandonedState ''1'' \<noteq> None"
    by (simp add: getChallengeById_def abandonedState_def defaultChallenges_def)
  have u: "u_id demoUser \<noteq> []"
    by (simp add: demoUser_def)
  have "fst (joinChallenge 7 ''1'' abandonedState) = Inl AlreadyJoined"
    using join_already_joined_iff [of 7 "''1''" abandonedState] c u
    by (simp add: h1 r recordFor_def)
  with h1 r show ?thesis
    by (simp add: recordFor_def)
qed

subsection \<open>C5: the progress seeded by a join\<close>

text \<open>
  C5. As stated the claim fails for the workouts pair: the goals of challenge \<open>"2"\<close> have no
  \<open>totalWorkouts\<close>, and the record of a join still tracks \<open>completedWorkouts\<close> of
  \<open>totalWorkouts = 14\<close>, the duration (\<open>challenge.goals.totalWorkouts || challenge.duration\<close>).
\<close>

theorem join_tracks_workouts_without_goal:
  "g_totalWorkouts (goals (defaultChallenges ! 1)) = None
   \<and> map_sum id progress (fst (joinChallenge 7 ''2'' freshState)) =
       Inr \<lparr>currentDay = 1, totalDays = 14, completedWorkouts = 0, totalWorkouts = 14,
            currentDistance = None, totalDistance = None,
            currentCalories = None, totalCalories = None,
            currentMinutes = Some 0, totalMinutes = Some 280,
            currentSessions = Some 0, totalSessions = Some 14\<rparr>"
  by (simp add: joinChallenge_def freshState_def getChallengeById_def defaultChallenges_def
        hasJoinedChallenge_def getUserChallenges_def demoUser_def MAX_ACTIVE_CHALLENGES_def
        newUserChallenge_def initializeChallengeProgress_def truthy_def orZero_def Let_def)

text \<open>
  C5, amended. A successful \<open>joinChallenge\<close> on challenge \<open>c\<close> gives a progress with
  \<open>currentDay = 1\<close>, \<open>totalDays = duration c\<close>, the workouts pair always present as
  \<open>(0, goals.totalWorkouts)\<close>, or \<open>(0, duration c)\<close> when that goal is missing or zero, and
  for each of distance, calories, minutes and sessions the pair \<open>(0, target)\<close> when the goal
  is present and not zero, and neither key otherwise.
\<close>

theorem join_seeds_progress:
  assumes "joinChallenge now cid s = (Inr uc, s')"
  shows "\<exists>c. getChallengeById s cid = Some c
           \<and> currentDay (progress uc) = 1
           \<and> totalDays (progress uc) = duration c
           \<and> completedWorkouts (progress uc) = 0
           \<and> totalWorkouts (progress uc) =
               (if truthy (g_totalWorkouts (goals c)) then orZero (g_totalWorkouts (goals c))
                else duration c)
           \<and> seededPair (g_totalDistance (goals c))
               (currentDistance (progress uc)) (totalDistance (progress uc))
           \<and> seededPair (g_caloriesBurned (goals c))
               (currentCalories (progress uc)) (totalCalories (progress uc))
           \<and> seededPair (g_totalMinutes (goals c))
               (currentMinutes (progress uc)) (totalMinutes (progress uc))
           \<and> seededPair (g_totalSessions (goals c))
               (currentSessions (progress uc)) (totalSessions (progress uc))"
proof -
  from joinChallenge_InrD [OF assms] obtain usr c
    where c: "getChallengeById s cid = Some c" and uc: "uc = newUserChallenge now usr c cid"
    by blast
  have "progress uc = initializeChallengeProgress c
        \<lparr>currentDay = 1,
         totalDays = duration c,
         completedWorkouts = 0,
         totalWorkouts = (if truthy (g_totalWorkouts (goals c))
                          then orZero (g_totalWorkouts (goals c)) else duration c),
         currentDistance = None, totalDistance = None,
         currentCalories = None, totalCalories = None,
         currentMinutes = None, totalMinutes = None,
         currentSessions = None, totalSessions = None\<rparr>" (is "_ = initializeChallengeProgress c ?p0")
    by (simp add: uc newUserChallenge_def)
  then show ?thesis
    using c initializeChallengeProgress_base [of c ?p0]
      initializeChallengeProgress_pairs [of ?p0 c]
    by simp
qed

text \<open>Witness: the demo user joins challenge \<open>"1"\<close> (distance 50, 20 workouts).\<close>

theorem join_seeds_progress_witness:
  "map_sum id (\<lambda>uc. (currentDistance (progress uc), totalDistance (progress uc),
                     completedWorkouts (progress uc), totalWorkouts (progress uc),
                     currentMinutes (progress uc), totalMinutes (progress uc)))
     (fst (joinChallenge 7 ''1'' freshState))
     = Inr (Some 0, Some 50, 0, 20, None, None)"
proof -
  have c: "getChallengeById freshState ''1'' = Some (defaultChallenges ! 0)"
    by (simp add: getChallengeById_def freshState_def defaultChallenges_def)
  have j: "\<exists>uc. fst (joinChallenge 7 ''1'' freshState) = Inr uc"
    by (simp add: joinChallenge_def freshState_def getChallengeById_def defaultChallenges_def
        hasJoinedChallenge_def getUserChallenges_def demoUser_def MAX_ACTIVE_CHALLENGES_def
        Let_def)
  then obtain uc where uc: "fst (joinChallenge 7 ''1'' freshState) = Inr uc" ..
  then have "joinChallenge 7 ''1'' freshState = (Inr uc, snd (joinChallenge 7 ''1'' freshState))"
    by (metis prod.collapse)
  from join_seeds_progress [OF this] c uc show ?thesis
    by (simp add: defaultChallenges_def seededPair_def truthy_def orZero_def)
qed

subsection \<open>C6: the completion transition\<close>

text \<open>
  C6. Every successful \<open>updateChallengeProgress\<close> returns the percentage recomputed from the
  record as mutated; if that is 100 or more the stored record gets the status \<open>completed\<close>
  and \<open>completedAt\<close> set to the time of the update, and if it is less, or not a number, the
  status and \<open>completedAt\<close> of the record stay what they were; nothing else of the state
  changes but the progress of that record (\<open>completionRule\<close>). In particular, for a challenge
  whose only goal is \<open>totalWorkouts = 2\<close>, with duration 2, joined by a user with no record
  for it and fewer than 5 active records: the record of the join is active; the first update
  \<open>{workoutCompleted: true}\<close> returns 50 and leaves the record active, without
  \<open>completedAt\<close>; the second returns 100 and leaves it completed and stamped.
\<close>

theorem update_completion_transition:
  assumes "session s = Some usr"
    and "getChallengeById s cid = Some c"
    and "duration c = 2"
    and "g_totalWorkouts (goals c) = Some 2"
    and "\<not> truthy (g_totalDistance (goals c))"
    and "\<not> truthy (g_caloriesBurned (goals c))"
    and "\<not> truthy (g_totalMinutes (goals c))"
    and "\<not> truthy (g_totalSessions (goals c))"
    and "\<not> list_ex (\<lambda>uc. challengeId uc = cid) (recordsOf s (u_id usr))"
    and "length (filter (\<lambda>uc. status uc = Active) (recordsOf s (u_id usr))) < 5"
    and "joinChallenge t0 cid s = (r0, s0)"
    and "updateChallengeProgress t1 cid workoutDone s0 = (r1, s1)"
    and "updateChallengeProgress t2 cid workoutDone s1 = (r2, s2)"
  shows "(\<forall>now cid' pd st p pct st'.
            updateChallengeProgress now cid' pd st = (Inr (p, pct), st')
              \<longrightarrow> completionRule now cid' p pct st st')
         \<and> (\<exists>uc0. r0 = Inr uc0 \<and> status uc0 = Active \<and> completedAt uc0 = None)
         \<and> (\<exists>p uc1. r1 = Inr (p, Some 50)
                 \<and> allUserChallenges s1 (u_id usr) = Some (recordsOf s (u_id usr) @ [uc1])
                 \<and> challengeId uc1 = cid
                 \<and> status uc1 = Active \<and> completedAt uc1 = None)
         \<and> (\<exists>p uc2. r2 = Inr (p, Some 100)
                 \<and> allUserChallenges s2 (u_id usr) = Some (recordsOf s (u_id usr) @ [uc2])
                 \<and> challengeId uc2 = cid
                 \<and> status uc2 = Completed \<and> completedAt uc2 = Some (ISODate t2))"
proof -
  let ?uc = "newUserChallenge t0 usr c cid"
  let ?old = "recordsOf s (u_id usr)"
  let ?p0 = "\<lparr>currentDay = 1, totalDays = 2, completedWorkouts = 0, totalWorkouts = 2,
       currentDistance = None, totalDistance = None,
       currentCalories = None, totalCalories = None,
       currentMinutes = None, totalMinutes = None,
       currentSessions = None, totalSessions = None\<rparr>"
  let ?p1 = "\<lparr>currentDay = 2, totalDays = 2, completedWorkouts = 1, totalWorkouts = 2,
       currentDistance = None, totalDistance = None,
       currentCalories = None, totalCalories = None,
       currentMinutes = None, totalMinutes = None,
       currentSessions = None, totalSessions = None\<rparr>"
  let ?p2 = "\<lparr>currentDay = 2, totalDays = 2, completedWorkouts = 2, totalWorkouts = 2,
       currentDistance = None, totalDistance = None,
       currentCalories = None, totalCalories = None,
       currentMinutes = None, totalMinutes = None,
       currentSessions = None, totalSessions = None\<rparr>"
  have rule: "\<forall>now cid' pd st p pct st'.
            updateChallengeProgress now cid' pd st = (Inr (p, pct), st')
              \<longrightarrow> completionRule now cid' p pct st st'"
    using updateChallengeProgress_completionRule by blast
  from joinChallenge_success [OF assms(1,2,9,10), of t0] assms(11)
  have r0: "r0 = Inr ?uc"
    and s0: "s0 = updateChallengeParticipants cid 1
                (s\<lparr>allUserChallenges := (allUserChallenges s)(u_id usr \<mapsto> ?old @ [?uc])\<rparr>)"
    by simp_all
  have st0: "status ?uc = Active" "completedAt ?uc = None"
    by (simp_all add: newUserChallenge_def)
  have pr0: "progress ?uc = ?p0"
    using assms(3-8)
    by (simp add: newUserChallenge_def initializeChallengeProgress_def truthy_def orZero_def)
  have ci: "challengeId ?uc = cid"
    by (simp add: newUserChallenge_def)
  have ses0: "session s0 = Some usr"
    and auc0: "allUserChallenges s0 (u_id usr) = Some (?old @ [?uc])"
    by (simp_all add: s0 updateChallengeParticipants_frame assms(1))
  have a1: "applyProgressData workoutDone ?p0 = ?p1"
    by (simp add: applyProgressData_def workoutDone_def truthy_def js_arith_examples)
  have "calculateChallengeProgress (?uc\<lparr>progress := ?p1\<rparr>) =
        calculateChallengeProgress (recordFor ''W'' Active ?p1)"
    by (rule calculateChallengeProgress_cong) (simp add: recordFor_def)
  also have "\<dots> = Some 50"
    by code_simp
  finally have c1: "calculateChallengeProgress (?uc\<lparr>progress := ?p1\<rparr>) = Some 50" .
  have k1: "checkCompleted t1 (?uc\<lparr>progress := ?p1\<rparr>) = ?uc\<lparr>progress := ?p1\<rparr>"
    by (simp add: checkCompleted_def c1)
  from updateChallengeProgress_last [OF ses0 auc0 assms(9) ci, of t1 workoutDone] assms(12)
  have r1: "r1 = Inr (?p1, Some 50)"
    and s1: "s1 = s0\<lparr>allUserChallenges := (allUserChallenges s0)
                   (u_id usr \<mapsto> ?old @ [?uc\<lparr>progress := ?p1\<rparr>])\<rparr>"
    by (simp_all add: pr0 a1 c1 k1)
  have ses1: "session s1 = Some usr"
    and auc1: "allUserChallenges s1 (u_id usr) = Some (?old @ [?uc\<lparr>progress := ?p1\<rparr>])"
    by (simp_all add: s1 ses0)
  have ci1: "challengeId (?uc\<lparr>progress := ?p1\<rparr>) = cid"
    by (simp add: ci)
  have st1: "status (?uc\<lparr>progress := ?p1\<rparr>) = Active"
    "completedAt (?uc\<lparr>progress := ?p1\<rparr>) = None"
    by (simp_all add: st0)
  have a2: "applyProgressData workoutDone ?p1 = ?p2"
    by (simp add: applyProgressData_def workoutDone_def truthy_def js_arith_examples)
  have "calculateChallengeProgress (?uc\<lparr>progress := ?p2\<rparr>) =
        calculateChallengeProgress (recordFor ''W'' Active ?p2)"
    by (rule calculateChallengeProgress_cong) (simp add: recordFor_def)
  also have "\<dots> = Some 100"
    by code_simp
  finally have c2: "calculateChallengeProgress (?uc\<lparr>progress := ?p2\<rparr>) = Some 100" .
  let ?fin = "checkCompleted t2 (?uc\<lparr>progress := ?p2\<rparr>)"
  from updateChallengeProgress_last [OF ses1 auc1 assms(9) ci1, of t2 workoutDone] assms(13)
  have r2: "r2 = Inr (?p2, Some 100)"
    and s2: "s2 = s1\<lparr>allUserChallenges := (allUserChallenges s1)(u_id usr \<mapsto> ?old @ [?fin])\<rparr>"
    by (simp_all add: a2 c2)
  have fin: "allUserChallenges s2 (u_id usr) = Some (?old @ [?fin])"
    by (simp add: s2)
  have st: "status ?fin = Completed \<and> completedAt ?fin = Some (ISODate t2)"
    by (rule checkCompleted_reached [OF c2]) simp
  have cf: "challengeId ?fin = cid"
    by (simp add: checkCompleted_keeps ci)
  from r0 st0 have j: "\<exists>uc0. r0 = Inr uc0 \<and> status uc0 = Active \<and> completedAt uc0 = None"
    by blast
  from r1 auc1 ci1 st1
  have u1: "\<exists>p uc1. r1 = Inr (p, Some 50)
              \<and> allUserChallenges s1 (u_id usr) = Some (?old @ [uc1])
              \<and> challengeId uc1 = cid \<and> status uc1 = Active \<and> completedAt uc1 = None"
    by blast
  from r2 fin cf st
  have u2: "\<exists>p uc2. r2 = Inr (p, Some 100)
              \<and> allUserChallenges s2 (u_id usr) = Some (?old @ [uc2])
              \<and> challengeId uc2 = cid
              \<and> status uc2 = Completed \<and> completedAt uc2 = Some (ISODate t2)"
    by blast
  from rule j u1 u2 show ?thesis
    by (intro conjI)
qed

text \<open>Witness: the demo user, the catalogue \<open>[W]\<close>, no records, updates at times 1 and 2.\<close>

theorem update_completion_transition_witness:
  "session stateW = Some demoUser
   \<and> getChallengeById stateW ''W'' = Some challengeW
   \<and> recordsOf stateW (u_id demoUser) = []
   \<and> map_sum id snd (fst (updateChallengeProgress 1 ''W'' workoutDone
        (snd (joinChallenge 0 ''W'' stateW)))) = Inr (Some 50)
   \<and> map_option (map (\<lambda>uc. (status uc, completedAt uc)))
        (allUserChallenges
           (snd (updateChallengeProgress 1 ''W'' workoutDone
              (snd (joinChallenge 0 ''W'' stateW)))) (u_id demoUser))
       = Some [(Active, None)]
   \<and> map_sum id snd (fst (updateChallengeProgress 2 ''W'' workoutDone
        (snd (updateChallengeProgress 1 ''W'' workoutDone
           (snd (joinChallenge 0 ''W'' stateW)))))) = Inr (Some 100)
   \<and> map_option (map (\<lambda>uc. (status uc, completedAt uc)))
        (allUserChallenges
           (snd (updateChallengeProgress 2 ''W'' workoutDone
              (snd (updateChallengeProgress 1 ''W'' workoutDone
                 (snd (joinChallenge 0 ''W'' stateW)))))) (u_id demoUser))
       = Some [(Completed, Some (ISODate 2))]"
proof -
  have h: "session stateW = Some demoUser" "getChallengeById stateW ''W'' = Some challengeW"
    "duration challengeW = 2"
    "g_totalWorkouts (goals challengeW) = Some 2"
    "\<not> truthy (g_totalDistance (goals challengeW))"
    "\<not> truthy (g_caloriesBurned (goals challengeW))"
    "\<not> truthy (g_totalMinutes (goals challengeW))"
    "\<not> truthy (g_totalSessions (goals challengeW))"
    by (simp_all add: stateW_def challengeW_def getChallengeById_def truthy_def)
  have r: "recordsOf stateW (u_id demoUser) = []"
    by (simp add: recordsOf_def stateW_def)
  have n: "\<not> list_ex (\<lambda>uc. challengeId uc = ''W'') (recordsOf stateW (u_id demoUser))"
    "length (filter (\<lambda>uc. status uc = Active) (recordsOf stateW (u_id demoUser))) < 5"
    by (simp_all add: r)
  let ?s1 = "snd (updateChallengeProgress 1 ''W'' workoutDone
               (snd (joinChallenge 0 ''W'' stateW)))"
  let ?s2 = "snd (updateChallengeProgress 2 ''W'' workoutDone ?s1)"
  from update_completion_transition
         [OF h n surjective_pairing surjective_pairing surjective_pairing,
          where ?t0.0 = 0 and ?t1.0 = 1 and ?t2.0 = 2]
  obtain p1 uc1 p2 uc2
    where "fst (updateChallengeProgress 1 ''W'' workoutDone
             (snd (joinChallenge 0 ''W'' stateW))) = Inr (p1, Some 50)"
      and "allUserChallenges ?s1 (u_id demoUser)
             = Some (recordsOf stateW (u_id demoUser) @ [uc1])"
      and "status uc1 = Active" "completedAt uc1 = None"
      and "fst (updateChallengeProgress 2 ''W'' workoutDone ?s1) = Inr (p2, Some 100)"
      and "allUserChallenges ?s2 (u_id demoUser)
             = Some (recordsOf stateW (u_id demoUser) @ [uc2])"
      and "status uc2 = Completed" "completedAt uc2 = Some (ISODate 2)"
    by blast
  then show ?thesis
    using h r by simp
qed

subsection \<open>C7: the merge of the sync\<close>

text \<open>
  C7. As stated the claim fails: a field that no source supplies is set to 0 in the delta,
  not left out. For the running challenge \<open>"1"\<close> the Strava fetch fails and the Fitbit
  answer has calories and no distance: the delta handed to \<open>updateChallengeProgress\<close> is
  \<open>{distance: 0, calories: 300}\<close>, and the sync reports success.
\<close>

theorem sync_zeroes_missing_field:
  "mergeProgressUpdate (gatherSyncedData (defaultChallenges ! 0) None (Some fitbitCaloriesOnly))
     = \<lparr>pd_distance = Some 0, pd_calories = Some 300, pd_minutes = None,
        pd_workoutCompleted = False\<rparr>
   \<and> fst (syncChallengeProgress 5 ''1'' None (Some fitbitCaloriesOnly) joinedState)
     = Inr \<lparr>sd_strava = None,
            sd_fitbit = Some \<lparr>fb_steps = 1000, fb_calories = 300, fb_distance = 0\<rparr>\<rparr>"
  by (simp add: mergeProgressUpdate_def gatherSyncedData_def defaultChallenges_def
        fitbitCaloriesOnly_def truthy_def orZero_def syncChallengeProgress_def
        getChallengeById_def joinedState_def)

text \<open>
  C7, amended. For a challenge of the catalogue, the delta handed to
  \<open>updateChallengeProgress\<close> always has both \<open>distance\<close> and \<open>calories\<close>: each is the Strava
  total if Strava was recorded and the total is not zero, else the Fitbit value if Fitbit was
  recorded and the value is not zero, else 0 (which the update ignores); \<open>minutes\<close> and
  \<open>workoutCompleted\<close> are never set. The sync returns the update's state and a success
  when a source was recorded; when none was (Fitbit failed, and Strava failed or was not
  asked) it returns the failure \<open>NoDataToSync\<close> and the state as it was, without calling
  \<open>updateChallengeProgress\<close>.
\<close>

theorem sync_merge_policy:
  assumes "getChallengeById s cid = Some c"
    and "sd = gatherSyncedData c stravaResult fitbitResult"
  shows "mergeProgressUpdate sd =
           \<lparr>pd_distance = Some (firstAvailable (map_option st_distance (sd_strava sd))
                                               (map_option fb_distance (sd_fitbit sd))),
            pd_calories = Some (firstAvailable (map_option st_calories (sd_strava sd))
                                               (map_option fb_calories (sd_fitbit sd))),
            pd_minutes = None,
            pd_workoutCompleted = False\<rparr>
         \<and> syncChallengeProgress now cid stravaResult fitbitResult s =
             (if sd_strava sd = None \<and> sd_fitbit sd = None then (Inl NoDataToSync, s)
              else (Inr sd, snd (updateChallengeProgress now cid (mergeProgressUpdate sd) s)))
         \<and> (if fitbitResult = None
               \<and> (stravaResult = None \<or> (category c \<noteq> Running \<and> category c \<noteq> Cycling))
            then syncChallengeProgress now cid stravaResult fitbitResult s = (Inl NoDataToSync, s)
            else True)"
proof -
  have m: "mergeProgressUpdate sd =
           \<lparr>pd_distance = Some (firstAvailable (map_option st_distance (sd_strava sd))
                                               (map_option fb_distance (sd_fitbit sd))),
            pd_calories = Some (firstAvailable (map_option st_calories (sd_strava sd))
                                               (map_option fb_calories (sd_fitbit sd))),
            pd_minutes = None,
            pd_workoutCompleted = False\<rparr>"
    by (rule mergeProgressUpdate_firstAvailable)
  have y: "syncChallengeProgress now cid stravaResult fitbitResult s =
             (if sd_strava sd = None \<and> sd_fitbit sd = None then (Inl NoDataToSync, s)
              else (Inr sd, snd (updateChallengeProgress now cid (mergeProgressUpdate sd) s)))"
    using assms by (simp add: syncChallengeProgress_def Let_def)
  have n: "syncChallengeProgress now cid stravaResult fitbitResult s = (Inl NoDataToSync, s)"
    if "fitbitResult = None"
      and "stravaResult = None \<or> (category c \<noteq> Running \<and> category c \<noteq> Cycling)"
    using gatherSyncedData_none [OF that] assms by (simp add: y)
  from m y n show ?thesis
    by simp
qed

text \<open>
  Witness: the running challenge \<open>"1"\<close> with a Strava activity of 5000 m without calories and
  the Fitbit answer above: distance 5 from Strava, calories 300 from Fitbit; and the same
  challenge with both fetches failing.
\<close>

theorem sync_merge_policy_witness:
  "getChallengeById joinedState ''1'' = Some (defaultChallenges ! 0)
   \<and> mergeProgressUpdate (gatherSyncedData (defaultChallenges ! 0)
        (Some [\<lparr>act_distance = 5000, act_calories = None\<rparr>]) (Some fitbitCaloriesOnly))
       = \<lparr>pd_distance = Some 5, pd_calories = Some 300, pd_minutes = None,
          pd_workoutCompleted = False\<rparr>
   \<and> syncChallengeProgress 5 ''1'' None None joinedState = (Inl NoDataToSync, joinedState)"
proof -
  let ?c = "defaultChallenges ! 0"
  let ?acts = "Some [\<lparr>act_distance = 5000, act_calories = None\<rparr>]"
  have h: "getChallengeById joinedState ''1'' = Some ?c"
    by (simp add: getChallengeById_def joinedState_def defaultChallenges_def)
  have g: "gatherSyncedData ?c ?acts (Some fitbitCaloriesOnly) =
             \<lparr>sd_strava = Some \<lparr>st_distance = 5, st_calories = 0, st_activities = 1\<rparr>,
              sd_fitbit = Some \<lparr>fb_steps = 1000, fb_calories = 300, fb_distance = 0\<rparr>\<rparr>"
    by (simp add: gatherSyncedData_def defaultChallenges_def fitbitCaloriesOnly_def orZero_def
          js_arith_examples)
  from sync_merge_policy [OF h refl, of ?acts "Some fitbitCaloriesOnly" 5]
  have a: "mergeProgressUpdate (gatherSyncedData ?c ?acts (Some fitbitCaloriesOnly))
       = \<lparr>pd_distance = Some 5, pd_calories = Some 300, pd_minutes = None,
          pd_workoutCompleted = False\<rparr>"
    by (simp add: g firstAvailable_def orZero_def)
  from sync_merge_policy [OF h refl, of None None 5]
  have b: "syncChallengeProgress 5 ''1'' None None joinedState = (Inl NoDataToSync, joinedState)"
    by (simp add: gatherSyncedData_def)
  from h a b show ?thesis
    by simp
qed

subsection \<open>C8: leaving after joining\<close>

text \<open>
  C8. For a logged-in user (with a non-empty id, as \<open>auth.js\<close> issues them): when
  \<open>joinChallenge\<close> succeeds on a challenge and \<open>leaveChallenge\<close> follows on it, the leave
  succeeds, the join had added 1 to the \<open>participants\<close> of the catalogue entry and the leave
  takes 1 away again, so that the catalogue is what it was before the join, and the record
  created by the join is stored with status \<open>abandoned\<close> and \<open>endDate\<close> set to the time of
  the leave. This holds for every challenge id, \<open>"1"\<close> among them.
\<close>

theorem join_then_leave:
  assumes "session s = Some usr"
    and "u_id usr \<noteq> []"
    and "joinChallenge ta cid s = (Inr uc, s1)"
    and "leaveChallenge tb cid s1 = (r2, s2)"
  shows "r2 = Inr ()
         \<and> map_option participants (getChallengeById s1 cid)
             = map_option (\<lambda>k. k + 1) (map_option participants (getChallengeById s cid))
         \<and> map_option participants (getChallengeById s2 cid)
             = map_option (\<lambda>k. k + (- 1)) (map_option participants (getChallengeById s1 cid))
         \<and> challenges s2 = challenges s
         \<and> allUserChallenges s2 (u_id usr)
             = Some (recordsOf s (u_id usr) @ [uc\<lparr>status := Abandoned, endDate := ISODate tb\<rparr>])"
proof -
  let ?old = "recordsOf s (u_id usr)"
  from joinChallenge_InrD [OF assms(3)] assms(1) obtain c
    where nj: "\<not> hasJoinedChallenge s cid"
      and uc: "uc = newUserChallenge ta usr c cid"
      and s1: "s1 = updateChallengeParticipants cid 1
                 (s\<lparr>allUserChallenges := (allUserChallenges s)(u_id usr \<mapsto> ?old @ [uc])\<rparr>)"
    by auto
  from nj assms(1,2) have old: "\<not> list_ex (\<lambda>u. challengeId u = cid) ?old"
    by (simp add: hasJoinedChallenge_def getUserChallenges_session)
  have ci: "challengeId uc = cid"
    by (simp add: uc newUserChallenge_def)
  have ses1: "session s1 = Some usr"
    and auc1: "allUserChallenges s1 (u_id usr) = Some (?old @ [uc])"
    by (simp_all add: s1 updateChallengeParticipants_frame assms(1))
  let ?s1' = "s1\<lparr>allUserChallenges := (allUserChallenges s1)
                (u_id usr \<mapsto> ?old @ [uc\<lparr>status := Abandoned, endDate := ISODate tb\<rparr>])\<rparr>"
  from leaveChallenge_last [OF ses1 auc1 old ci, of tb] assms(4)
  have r2: "r2 = Inr ()"
    and s2: "s2 = updateChallengeParticipants cid (- 1) ?s1'"
    by simp_all
  have inc: "map_option participants (getChallengeById s1 cid)
             = map_option (\<lambda>k. k + 1) (map_option participants (getChallengeById s cid))"
    unfolding s1
    using getChallengeById_participants
            [of cid 1 "s\<lparr>allUserChallenges := (allUserChallenges s)(u_id usr \<mapsto> ?old @ [uc])\<rparr>"]
    by (simp add: getChallengeById_def)
  have dec: "map_option participants (getChallengeById s2 cid)
             = map_option (\<lambda>k. k + (- 1)) (map_option participants (getChallengeById s1 cid))"
    unfolding s2
    using getChallengeById_participants [of cid "- 1" ?s1']
    by (simp add: getChallengeById_def)
  have ch1: "challenges ?s1' = challenges (updateChallengeParticipants cid 1 s)"
    by (simp add: s1 updateChallengeParticipants_challenges split: option.splits)
  have restored: "challenges s2 = challenges s"
    unfolding s2 by (rule updateChallengeParticipants_inverse [OF ch1])
  have fin: "allUserChallenges s2 (u_id usr)
             = Some (?old @ [uc\<lparr>status := Abandoned, endDate := ISODate tb\<rparr>])"
    by (simp add: s2 updateChallengeParticipants_frame)
  from r2 inc dec restored fin show ?thesis
    by blast
qed

text \<open>
  Witness: the demo user joins challenge \<open>"1"\<close> of the default catalogue (2453
  participants) at time 3 and leaves it at time 9.
\<close>

theorem join_then_leave_witness:
  "session freshState = Some demoUser
   \<and> u_id demoUser \<noteq> []
   \<and> map_option participants (getChallengeById freshState ''1'') = Some 2453
   \<and> map_option participants (getChallengeById (snd (joinChallenge 3 ''1'' freshState)) ''1'')
       = Some 2454
   \<and> map_option participants
        (getChallengeById
           (snd (leaveChallenge 9 ''1'' (snd (joinChallenge 3 ''1'' freshState)))) ''1'')
       = Some 2453
   \<and> map_option (map (\<lambda>uc. (challengeId uc, status uc, endDate uc)))
        (allUserChallenges
           (snd (leaveChallenge 9 ''1'' (snd (joinChallenge 3 ''1'' freshState))))
           (u_id demoUser))
       = Some [(''1'', Abandoned, ISODate 9)]"
proof -
  let ?s1 = "snd (joinChallenge 3 ''1'' freshState)"
  let ?s2 = "snd (leaveChallenge 9 ''1'' ?s1)"
  have h1: "session freshState = Some demoUser"
    by (simp add: freshState_def)
  have h2: "u_id demoUser \<noteq> []"
    by (simp add: demoUser_def)
  have r: "recordsOf freshState (u_id demoUser) = []"
    by (simp add: recordsOf_def freshState_def)
  have c: "getChallengeById freshState ''1'' = Some (defaultChallenges ! 0)"
    by (simp add: getChallengeById_def freshState_def defaultChallenges_def)
  have p: "map_option participants (getChallengeById freshState ''1'') = Some 2453"
    by (simp add: c defaultChallenges_def)
  have n: "\<not> list_ex (\<lambda>uc. challengeId uc = ''1'') (recordsOf freshState (u_id demoUser))"
    "length (filter (\<lambda>uc. status uc = Active) (recordsOf freshState (u_id demoUser))) < 5"
    by (simp_all add: r)
  let ?uc = "newUserChallenge 3 demoUser (defaultChallenges ! 0) ''1''"
  from joinChallenge_success [OF h1 c n, of 3]
  have j: "joinChallenge 3 ''1'' freshState = (Inr ?uc, ?s1)"
    by simp
  have ci: "challengeId ?uc = ''1''"
    by (simp add: newUserChallenge_def)
  from join_then_leave [OF h1 h2 j surjective_pairing, of 9] h1 h2 p r ci show ?thesis
    by simp
qed

subsection \<open>C9: the current day never passes the last day\<close>

text \<open>
  C9. When \<open>currentDay \<le> totalDays\<close> holds in every stored record, it holds in every stored
  record after \<open>updateChallengeProgress\<close> with any delta (a completed workout advances
  \<open>currentDay\<close> by one, capped at \<open>totalDays\<close>), after \<open>leaveChallenge\<close> and after
  \<open>syncChallengeProgress\<close>; and the record that \<open>joinChallenge\<close> creates satisfies it, the
  durations of the catalogue being positive integers as the data model says (at least 1).
\<close>

theorem currentDay_invariant:
  assumes "dayInvariant s"
    and "list_all (\<lambda>c. 1 \<le> duration c) (challenges s)"
  shows "dayInvariant (snd (updateChallengeProgress now cid pd s))
         \<and> dayInvariant (snd (joinChallenge now cid s))
         \<and> dayInvariant (snd (leaveChallenge now cid s))
         \<and> dayInvariant (snd (syncChallengeProgress now cid stravaResult fitbitResult s))"
  using dayInvariant_update [OF assms(1)] dayInvariant_join [OF assms]
    dayInvariant_leave [OF assms(1)] dayInvariant_sync [OF assms(1)]
  by simp

text \<open>
  Witness: the demo user, on the last day of challenge \<open>W\<close> (day 2 of 2), completes a
  workout, and the day stays 2; joining challenge \<open>"1"\<close> of the catalogue starts at day 1 of 30.
\<close>

theorem currentDay_invariant_witness:
  "dayInvariant lastDayState
   \<and> list_all (\<lambda>c. 1 \<le> duration c) (challenges lastDayState)
   \<and> map_option (map (\<lambda>uc. (currentDay (progress uc), totalDays (progress uc))))
        (allUserChallenges (snd (updateChallengeProgress 5 ''W'' workoutDone lastDayState)) ''1'')
       = Some [(2, 2)]
   \<and> dayInvariant (snd (updateChallengeProgress 5 ''W'' workoutDone lastDayState))
   \<and> dayInvariant (snd (joinChallenge 5 ''1'' lastDayState))"
proof -
  have h1: "dayInvariant lastDayState"
    by (simp add: dayInvariant_def lastDayState_def recordFor_def)
  have h2: "list_all (\<lambda>c. 1 \<le> duration c) (challenges lastDayState)"
    by (simp add: lastDayState_def defaultChallenges_def challengeW_def)
  have v: "map_option (map (\<lambda>uc. (currentDay (progress uc), totalDays (progress uc))))
        (allUserChallenges (snd (updateChallengeProgress 5 ''W'' workoutDone lastDayState)) ''1'')
       = Some [(2, 2)]"
    by (simp add: updateChallengeProgress_def lastDayState_def demoUser_def recordFor_def
          Let_def applyProgressData_def workoutDone_def truthy_def checkCompleted_keeps
          js_arith_examples)
  from currentDay_invariant [OF h1 h2, of 5 "''W''" workoutDone None None]
    currentDay_invariant [OF h1 h2, of 5 "''1''" workoutDone None None]
    h1 h2 v
  show ?thesis
    by simp
qed

subsection \<open>C10: an update that carries nothing\<close>

text \<open>
  C10. For a logged-in user with a record for the challenge, \<open>updateChallengeProgress\<close>
  with a delta whose fields are all missing, zero or false succeeds, returns the progress
  of the record as it was, and leaves the progress of every stored record of every user as
  it was.
\<close>

theorem update_empty_delta:
  assumes "session s = Some usr"
    and "allUserChallenges s (u_id usr) = Some ucs"
    and "list_ex (\<lambda>uc. challengeId uc = cid) ucs"
    and "emptyDelta pd"
  shows "\<exists>i pct s'. findIndex (\<lambda>uc. challengeId uc = cid) ucs = Some i
           \<and> updateChallengeProgress now cid pd s = (Inr (progress (ucs ! i), pct), s')
           \<and> (\<forall>uid. map_option (map progress) (allUserChallenges s' uid)
                      = map_option (map progress) (allUserChallenges s uid))"
proof -
  from assms(3) obtain i where fi: "findIndex (\<lambda>uc. challengeId uc = cid) ucs = Some i"
    using findIndex_None_iff [of "\<lambda>uc. challengeId uc = cid" ucs] by auto
  from findIndex_SomeD [OF fi] have i: "i < length ucs"
    by simp
  let ?uc2 = "checkCompleted now ((ucs ! i)\<lparr>progress := progress (ucs ! i)\<rparr>)"
  let ?s' = "s\<lparr>allUserChallenges := (allUserChallenges s)(u_id usr \<mapsto> ucs[i := ?uc2])\<rparr>"
  from updateChallengeProgress_found [OF assms(1,2) fi, of now pd]
  have u: "updateChallengeProgress now cid pd s =
             (Inr (progress (ucs ! i), calculateChallengeProgress (ucs ! i)), ?s')"
    by (simp add: applyProgressData_empty [OF assms(4)])
  have "map progress (ucs[i := ?uc2]) = map progress ucs"
    using i by (simp add: map_update checkCompleted_keeps list_update_same_conv)
  then have "\<forall>uid. map_option (map progress) (allUserChallenges ?s' uid)
                      = map_option (map progress) (allUserChallenges s uid)"
    using assms(2) by simp
  with fi u show ?thesis
    by blast
qed

text \<open>
  Witness: the demo user, with a record for challenge \<open>"1"\<close>, sends \<open>{distance: 0, calories:
  0}\<close>, the delta that a sync without data produces.
\<close>

theorem update_empty_delta_witness:
  "session joinedState = Some demoUser
   \<and> emptyDelta \<lparr>pd_distance = Some 0, pd_calories = Some 0, pd_minutes = None,
                 pd_workoutCompleted = False\<rparr>
   \<and> map_sum id fst (fst (updateChallengeProgress 5 ''1''
        \<lparr>pd_distance = Some 0, pd_calories = Some 0, pd_minutes = None,
         pd_workoutCompleted = False\<rparr> joinedState))
       = Inr (plainProgress\<lparr>currentDistance := Some 0, totalDistance := Some 50\<rparr>)"
proof -
  let ?pd = "\<lparr>pd_distance = Some 0, pd_calories = Some 0, pd_minutes = None,
              pd_workoutCompleted = False\<rparr>"
  let ?ucs = "[recordFor ''1'' Active
                 (plainProgress\<lparr>currentDistance := Some 0, totalDistance := Some 50\<rparr>)]"
  have h1: "session joinedState = Some demoUser"
    by (simp add: joinedState_def)
  have h2: "allUserChallenges joinedState (u_id demoUser) = Some ?ucs"
    by (simp add: joinedState_def demoUser_def)
  have h3: "list_ex (\<lambda>uc. challengeId uc = ''1'') ?ucs"
    by (simp add: recordFor_def)
  have h4: "emptyDelta ?pd"
    by (simp add: emptyDelta_def truthy_def)
  have f: "findIndex (\<lambda>uc. challengeId uc = ''1'') ?ucs = Some 0"
    by (simp add: recordFor_def)
  from update_empty_delta [OF h1 h2 h3 h4, of 5] f
  obtain pct s' where "updateChallengeProgress 5 ''1'' ?pd joinedState
      = (Inr (progress (?ucs ! 0), pct), s')"
    by auto
  with h1 h4 show ?thesis
    by (simp add: recordFor_def)
qed

end
